theory Spec2Isabelle
  imports Main
begin

section \<open>The intermediate representation\<close>

text \<open>
  Modelled from the spec: the node declarations of Halide (\<^verbatim>\<open>IR.h\<close>,
  \<^verbatim>\<open>Type.h\<close>) are not among the sources, so the trees the pass of
  \<^verbatim>\<open>TrimNoOps.cpp\<close> works on follow the specification's data model and the fields
  the pass reads. A type has a code, a bit width and a lane count. An expression is an
  immediate, a variable, a cast, an arithmetic, comparison or boolean node, a select, a
  load, a broadcast, a call or a let. A statement is a let, an assert, a
  producer/consumer, a for-loop, a store, an allocate, a free, a block, an if-then-else or
  an evaluate. Floating-point immediates, string immediates and ramps, the buffer and
  parameter handles of a load or a call, and the custom allocator of an allocate carry
  nothing the pass looks at and are left out. Constructors whose Halide name is a
  constant of HOL are primed (\<open>Min'\<close>, \<open>Max'\<close>, \<open>Not'\<close>, \<open>Let'\<close>).
\<close>

datatype type_code = halide_type_int | halide_type_uint | halide_type_float | halide_type_handle

record htype =
  tcode :: type_code
  tbits :: nat
  tlanes :: nat

definition Int_t :: "nat \<Rightarrow> htype" where
  "Int_t n = \<lparr>tcode = halide_type_int, tbits = n, tlanes = 1\<rparr>"

definition UInt_t :: "nat \<Rightarrow> nat \<Rightarrow> htype" where
  "UInt_t n w = \<lparr>tcode = halide_type_uint, tbits = n, tlanes = w\<rparr>"

definition Bool_t :: "nat \<Rightarrow> htype" where
  "Bool_t w = UInt_t 1 w"

definition is_int :: "htype \<Rightarrow> bool" where
  "is_int t = (tcode t = halide_type_int)"

definition is_handle :: "htype \<Rightarrow> bool" where
  "is_handle t = (tcode t = halide_type_handle)"

datatype call_type = Image | Extern | Halide | Intrinsic

datatype expr =
    IntImm htype int
  | UIntImm htype nat
  | Cast htype expr
  | Variable htype string
  | Add expr expr
  | Sub expr expr
  | Mul expr expr
  | Div expr expr
  | Mod expr expr
  | Min' expr expr
  | Max' expr expr
  | EQ expr expr
  | NE expr expr
  | LT expr expr
  | LE expr expr
  | GT expr expr
  | GE expr expr
  | And expr expr
  | Or expr expr
  | Not' expr
  | Select expr expr expr
  | Load htype string expr
  | Broadcast expr nat
  | Call htype string "expr list" call_type
  | Let' string expr expr

datatype for_type = Serial | Parallel | Vectorized | Unrolled

datatype device_api = Parent | Host | Default_GPU | CUDA | OpenCL | GLSL | Renderscript | Metal

datatype stmt =
    LetStmt string expr stmt
  | AssertStmt expr expr
  | ProducerConsumer string stmt "stmt option" stmt
  | For string expr expr for_type device_api stmt
  | Store string expr expr
  | Allocate string htype "expr list" expr stmt
  | Free string
  | Block stmt stmt
  | IfThenElse expr stmt "stmt option"
  | Evaluate expr

text \<open>
  The type of an expression, as the node constructors of Halide compute it: an arithmetic
  node, a minimum or a maximum has the type of its first operand; a comparison or a
  boolean node is a boolean of as many lanes; a let has the type of its body.
\<close>

fun type_of :: "expr \<Rightarrow> htype" where
  "type_of (IntImm t v) = t"
| "type_of (UIntImm t v) = t"
| "type_of (Cast t e) = t"
| "type_of (Variable t x) = t"
| "type_of (Add a b) = type_of a"
| "type_of (Sub a b) = type_of a"
| "type_of (Mul a b) = type_of a"
| "type_of (Div a b) = type_of a"
| "type_of (Mod a b) = type_of a"
| "type_of (Min' a b) = type_of a"
| "type_of (Max' a b) = type_of a"
| "type_of (EQ a b) = Bool_t (tlanes (type_of a))"
| "type_of (NE a b) = Bool_t (tlanes (type_of a))"
| "type_of (LT a b) = Bool_t (tlanes (type_of a))"
| "type_of (LE a b) = Bool_t (tlanes (type_of a))"
| "type_of (GT a b) = Bool_t (tlanes (type_of a))"
| "type_of (GE a b) = Bool_t (tlanes (type_of a))"
| "type_of (And a b) = Bool_t (tlanes (type_of a))"
| "type_of (Or a b) = Bool_t (tlanes (type_of a))"
| "type_of (Not' a) = Bool_t (tlanes (type_of a))"
| "type_of (Select c a b) = type_of a"
| "type_of (Load t n i) = t"
| "type_of (Broadcast e w) = (type_of e)\<lparr>tlanes := w\<rparr>"
| "type_of (Call t n args ct) = t"
| "type_of (Let' x v b) = type_of b"

subsection \<open>Constants and operators\<close>

text \<open>
  Modelled from the spec: \<^verbatim>\<open>IROperator.h\<close> is not among the sources. The
  constant tests look through casts and broadcasts; \<open>make_const\<close> builds the
  immediate of an integer type (a broadcast of it for a vector type); \<open>const_true\<close>
  and \<open>const_false\<close> are the one and the zero of the one-bit unsigned type. For
  operands of one type (loop bounds and solved bounds are 32-bit integers) the overloaded
  operators build the plain node, and \<open>clamp a lo hi\<close> is the maximum of \<open>lo\<close>
  and the minimum of \<open>a\<close> and \<open>hi\<close>.
\<close>

fun is_const :: "expr \<Rightarrow> bool" where
  "is_const (IntImm t v) = True"
| "is_const (UIntImm t v) = True"
| "is_const (Cast t e) = is_const e"
| "is_const (Broadcast e w) = is_const e"
| "is_const e = False"

fun is_zero :: "expr \<Rightarrow> bool" where
  "is_zero (IntImm t v) = (v = 0)"
| "is_zero (UIntImm t v) = (v = 0)"
| "is_zero (Cast t e) = is_zero e"
| "is_zero (Broadcast e w) = is_zero e"
| "is_zero e = False"

fun is_one :: "expr \<Rightarrow> bool" where
  "is_one (IntImm t v) = (v = 1)"
| "is_one (UIntImm t v) = (v = 1)"
| "is_one (Cast t e) = is_one e"
| "is_one (Broadcast e w) = is_one e"
| "is_one e = False"

definition make_const :: "htype \<Rightarrow> int \<Rightarrow> expr" where
  "make_const t v =
     (let s = (if tcode t = halide_type_uint then UIntImm (t\<lparr>tlanes := 1\<rparr>) (nat v)
               else IntImm (t\<lparr>tlanes := 1\<rparr>) v)
      in if tlanes t = 1 then s else Broadcast s (tlanes t))"

definition make_one :: "htype \<Rightarrow> expr" where
  "make_one t = make_const t 1"

definition make_zero :: "htype \<Rightarrow> expr" where
  "make_zero t = make_const t 0"

definition const_true :: expr where
  "const_true = make_one (Bool_t 1)"

definition const_false :: expr where
  "const_false = make_zero (Bool_t 1)"

definition clamp :: "expr \<Rightarrow> expr \<Rightarrow> expr \<Rightarrow> expr" where
  "clamp a min_val max_val = Max' (Min' a max_val) min_val"

text \<open>The names of the intrinsics the pass tests for (\<^verbatim>\<open>Call::trace_expr\<close> and so on).\<close>

definition trace_expr :: string where "trace_expr = ''trace_expr''"
definition return_second :: string where "return_second = ''return_second''"
definition likely :: string where "likely = ''likely''"
definition rewrite_buffer :: string where "rewrite_buffer = ''rewrite_buffer''"
definition image_store :: string where "image_store = ''image_store''"
definition copy_memory :: string where "copy_memory = ''copy_memory''"

text \<open>
  Modelled from the spec: \<^verbatim>\<open>ExprUsesVar.h\<close> is not among the sources.
  \<open>expr_uses_var e x\<close> holds when a variable node named \<open>x\<close> occurs anywhere in
  \<open>e\<close>; the name of a load's buffer, of a call or of a let binder is no variable node.
\<close>

fun expr_uses_var :: "expr \<Rightarrow> string \<Rightarrow> bool"
  and exprs_use_var :: "expr list \<Rightarrow> string \<Rightarrow> bool" where
  "expr_uses_var (IntImm t v) x = False"
| "expr_uses_var (UIntImm t v) x = False"
| "expr_uses_var (Cast t e) x = expr_uses_var e x"
| "expr_uses_var (Variable t y) x = (y = x)"
| "expr_uses_var (Add a b) x = (expr_uses_var a x \<or> expr_uses_var b x)"
| "expr_uses_var (Sub a b) x = (expr_uses_var a x \<or> expr_uses_var b x)"
| "expr_uses_var (Mul a b) x = (expr_uses_var a x \<or> expr_uses_var b x)"
| "expr_uses_var (Div a b) x = (expr_uses_var a x \<or> expr_uses_var b x)"
| "expr_uses_var (Mod a b) x = (expr_uses_var a x \<or> expr_uses_var b x)"
| "expr_uses_var (Min' a b) x = (expr_uses_var a x \<or> expr_uses_var b x)"
| "expr_uses_var (Max' a b) x = (expr_uses_var a x \<or> expr_uses_var b x)"
| "expr_uses_var (EQ a b) x = (expr_uses_var a x \<or> expr_uses_var b x)"
| "expr_uses_var (NE a b) x = (expr_uses_var a x \<or> expr_uses_var b x)"
| "expr_uses_var (LT a b) x = (expr_uses_var a x \<or> expr_uses_var b x)"
| "expr_uses_var (LE a b) x = (expr_uses_var a x \<or> expr_uses_var b x)"
| "expr_uses_var (GT a b) x = (expr_uses_var a x \<or> expr_uses_var b x)"
| "expr_uses_var (GE a b) x = (expr_uses_var a x \<or> expr_uses_var b x)"
| "expr_uses_var (And a b) x = (expr_uses_var a x \<or> expr_uses_var b x)"
| "expr_uses_var (Or a b) x = (expr_uses_var a x \<or> expr_uses_var b x)"
| "expr_uses_var (Not' a) x = expr_uses_var a x"
| "expr_uses_var (Select c a b) x =
     (expr_uses_var c x \<or> expr_uses_var a x \<or> expr_uses_var b x)"
| "expr_uses_var (Load t n i) x = expr_uses_var i x"
| "expr_uses_var (Broadcast e w) x = expr_uses_var e x"
| "expr_uses_var (Call t n args ct) x = exprs_use_var args x"
| "expr_uses_var (Let' y v b) x = (expr_uses_var v x \<or> expr_uses_var b x)"
| "exprs_use_var [] x = False"
| "exprs_use_var (e # es) x = (expr_uses_var e x \<or> exprs_use_var es x)"


section \<open>Collaborators\<close>

text \<open>
  Modelled from the spec: \<^verbatim>\<open>Interval\<close> and the interval tests of
  \<^verbatim>\<open>Solve.h\<close> are not among the sources. An interval is a pair of bounds,
  either of which may be absent (unbounded in that direction). The bounds are handles to
  expression nodes, and the pass asks of an interval whether its two bounds are one and the
  same node (\<^verbatim>\<open>same_as\<close>, line 160); two equal expressions need not be one
  node. The field \<open>i_same\<close> records this for an interval with both bounds present.
  \<open>Interval a b\<close> is an interval built from two nodes, \<open>Interval_point v\<close> the
  interval \<^verbatim>\<open>{v, v}\<close> holding one node twice. A scope of intervals is an
  association list, the innermost binding first.
\<close>

record interval =
  i_min :: "expr option"
  i_max :: "expr option"
  i_same :: bool

definition Interval :: "expr \<Rightarrow> expr \<Rightarrow> interval" where
  "Interval a b = \<lparr>i_min = Some a, i_max = Some b, i_same = False\<rparr>"

definition Interval_point :: "expr \<Rightarrow> interval" where
  "Interval_point v = \<lparr>i_min = Some v, i_max = Some v, i_same = True\<rparr>"

definition interval_has_upper_bound :: "interval \<Rightarrow> bool" where
  "interval_has_upper_bound i = (i_max i \<noteq> None)"

definition interval_has_lower_bound :: "interval \<Rightarrow> bool" where
  "interval_has_lower_bound i = (i_min i \<noteq> None)"

definition interval_is_everything :: "interval \<Rightarrow> bool" where
  "interval_is_everything i = (i_min i = None \<and> i_max i = None)"

type_synonym scope = "(string \<times> interval) list"

text \<open>
  The pass calls the simplifier, common-subexpression elimination, domain relaxation, the
  two solvers and the name generator; none of them is among the sources, so they are
  parameters of the model. \<open>unique_name\<close> reads and advances a supply of names
  \<open>'u\<close> (a global counter in Halide); \<open>solve_expression\<close> returns nothing when it
  cannot isolate the variable.
\<close>

record 'u collaborators =
  simplify :: "expr \<Rightarrow> expr"
  simplify_stmt :: "stmt \<Rightarrow> stmt"
  common_subexpression_elimination :: "expr \<Rightarrow> expr"
  and_condition_over_domain :: "expr \<Rightarrow> scope \<Rightarrow> expr"
  solve_expression :: "expr \<Rightarrow> string \<Rightarrow> expr option"
  solve_for_outer_interval :: "expr \<Rightarrow> string \<Rightarrow> interval"
  unique_name :: "string \<Rightarrow> 'u \<Rightarrow> string \<times> 'u"

section \<open>StripIdentities\<close>

text \<open>
  The mutator removes identity calls: an intrinsic \<open>trace_expr\<close> becomes its argument
  of index 4 (mutated), an intrinsic \<open>return_second\<close> or \<open>likely\<close> its last
  argument (mutated); every other node is rebuilt from its mutated children. The source
  indexes the argument vector unchecked; a call with too few arguments is the result
  \<open>None\<close>.
\<close>

fun StripIdentities_mutate :: "expr \<Rightarrow> expr option"
  and StripIdentities_mutate_list :: "expr list \<Rightarrow> expr list option" where
  "StripIdentities_mutate (IntImm t v) = Some (IntImm t v)"
| "StripIdentities_mutate (UIntImm t v) = Some (UIntImm t v)"
| "StripIdentities_mutate (Cast t e) = map_option (Cast t) (StripIdentities_mutate e)"
| "StripIdentities_mutate (Variable t x) = Some (Variable t x)"
| "StripIdentities_mutate (Add a b) =
     Option.bind (StripIdentities_mutate a) (\<lambda>a'. map_option (Add a') (StripIdentities_mutate b))"
| "StripIdentities_mutate (Sub a b) =
     Option.bind (StripIdentities_mutate a) (\<lambda>a'. map_option (Sub a') (StripIdentities_mutate b))"
| "StripIdentities_mutate (Mul a b) =
     Option.bind (StripIdentities_mutate a) (\<lambda>a'. map_option (Mul a') (StripIdentities_mutate b))"
| "StripIdentities_mutate (Div a b) =
     Option.bind (StripIdentities_mutate a) (\<lambda>a'. map_option (Div a') (StripIdentities_mutate b))"
| "StripIdentities_mutate (Mod a b) =
     Option.bind (StripIdentities_mutate a) (\<lambda>a'. map_option (Mod a') (StripIdentities_mutate b))"
| "StripIdentities_mutate (Min' a b) =
     Option.bind (StripIdentities_mutate a) (\<lambda>a'. map_option (Min' a') (StripIdentities_mutate b))"
| "StripIdentities_mutate (Max' a b) =
     Option.bind (StripIdentities_mutate a) (\<lambda>a'. map_option (Max' a') (StripIdentities_mutate b))"
| "StripIdentities_mutate (EQ a b) =
     Option.bind (StripIdentities_mutate a) (\<lambda>a'. map_option (EQ a') (StripIdentities_mutate b))"
| "StripIdentities_mutate (NE a b) =
     Option.bind (StripIdentities_mutate a) (\<lambda>a'. map_option (NE a') (StripIdentities_mutate b))"
| "StripIdentities_mutate (LT a b) =
     Option.bind (StripIdentities_mutate a) (\<lambda>a'. map_option (LT a') (StripIdentities_mutate b))"
| "StripIdentities_mutate (LE a b) =
     Option.bind (StripIdentities_mutate a) (\<lambda>a'. map_option (LE a') (StripIdentities_mutate b))"
| "StripIdentities_mutate (GT a b) =
     Option.bind (StripIdentities_mutate a) (\<lambda>a'. map_option (GT a') (StripIdentities_mutate b))"
| "StripIdentities_mutate (GE a b) =
     Option.bind (StripIdentities_mutate a) (\<lambda>a'. map_option (GE a') (StripIdentities_mutate b))"
| "StripIdentities_mutate (And a b) =
     Option.bind (StripIdentities_mutate a) (\<lambda>a'. map_option (And a') (StripIdentities_mutate b))"
| "StripIdentities_mutate (Or a b) =
     Option.bind (StripIdentities_mutate a) (\<lambda>a'. map_option (Or a') (StripIdentities_mutate b))"
| "StripIdentities_mutate (Not' a) = map_option Not' (StripIdentities_mutate a)"
| "StripIdentities_mutate (Select c a b) =
     Option.bind (StripIdentities_mutate c) (\<lambda>c'.
     Option.bind (StripIdentities_mutate a) (\<lambda>a'.
     map_option (Select c' a') (StripIdentities_mutate b)))"
| "StripIdentities_mutate (Load t n i) = map_option (Load t n) (StripIdentities_mutate i)"
| "StripIdentities_mutate (Broadcast e w) =
     map_option (\<lambda>e'. Broadcast e' w) (StripIdentities_mutate e)"
| "StripIdentities_mutate (Call t n args ct) =
     (if ct = Intrinsic \<and> n = trace_expr then
        (case args of
           a0 # a1 # a2 # a3 # a4 # rest \<Rightarrow> StripIdentities_mutate a4
         | _ \<Rightarrow> None)
      else if ct = Intrinsic \<and> (n = return_second \<or> n = likely) then
        (case rev args of
           a # rest \<Rightarrow> StripIdentities_mutate a
         | [] \<Rightarrow> None)
      else map_option (\<lambda>args'. Call t n args' ct) (StripIdentities_mutate_list args))"
| "StripIdentities_mutate (Let' x v b) =
     Option.bind (StripIdentities_mutate v) (\<lambda>v'. map_option (Let' x v') (StripIdentities_mutate b))"
| "StripIdentities_mutate_list [] = Some []"
| "StripIdentities_mutate_list (e # es) =
     Option.bind (StripIdentities_mutate e) (\<lambda>e'.
     map_option ((#) e') (StripIdentities_mutate_list es))"


section \<open>IsNoOp\<close>

text \<open>
  The visitor builds a sufficient condition for the visited statement to be a no-op. Its
  field \<open>condition\<close> is threaded through the traversal: each function takes the
  condition before the visit and returns the condition after it (\<open>None\<close> when
  \<open>StripIdentities\<close> reads past the end of an argument vector). Nodes the class
  does not override are visited as \<^verbatim>\<open>IRVisitor\<close> does, child by child in
  declaration order. The overrides for a store, a for-loop and an if-then-else do not
  visit the node's own expressions.
\<close>

definition make_and :: "expr \<Rightarrow> expr \<Rightarrow> expr" where
  "make_and a b =
     (if is_zero a \<or> is_one b then a
      else if is_zero b \<or> is_one a then b
      else And a b)"

definition make_or :: "expr \<Rightarrow> expr \<Rightarrow> expr" where
  "make_or a b =
     (if is_zero a \<or> is_one b then b
      else if is_zero b \<or> is_one a then a
      else Or a b)"

fun IsNoOp_expr :: "'u collaborators \<Rightarrow> expr \<Rightarrow> expr \<Rightarrow> expr option"
  and IsNoOp_exprs :: "'u collaborators \<Rightarrow> expr list \<Rightarrow> expr \<Rightarrow> expr option"
  and IsNoOp_stmt :: "'u collaborators \<Rightarrow> stmt \<Rightarrow> expr \<Rightarrow> expr option" where
  "IsNoOp_expr ext (IntImm t v) condition = Some condition"
| "IsNoOp_expr ext (UIntImm t v) condition = Some condition"
| "IsNoOp_expr ext (Cast t e) condition = IsNoOp_expr ext e condition"
| "IsNoOp_expr ext (Variable t x) condition = Some condition"
| "IsNoOp_expr ext (Add a b) condition =
     Option.bind (IsNoOp_expr ext a condition) (IsNoOp_expr ext b)"
| "IsNoOp_expr ext (Sub a b) condition =
     Option.bind (IsNoOp_expr ext a condition) (IsNoOp_expr ext b)"
| "IsNoOp_expr ext (Mul a b) condition =
     Option.bind (IsNoOp_expr ext a condition) (IsNoOp_expr ext b)"
| "IsNoOp_expr ext (Div a b) condition =
     Option.bind (IsNoOp_expr ext a condition) (IsNoOp_expr ext b)"
| "IsNoOp_expr ext (Mod a b) condition =
     Option.bind (IsNoOp_expr ext a condition) (IsNoOp_expr ext b)"
| "IsNoOp_expr ext (Min' a b) condition =
     Option.bind (IsNoOp_expr ext a condition) (IsNoOp_expr ext b)"
| "IsNoOp_expr ext (Max' a b) condition =
     Option.bind (IsNoOp_expr ext a condition) (IsNoOp_expr ext b)"
| "IsNoOp_expr ext (EQ a b) condition =
     Option.bind (IsNoOp_expr ext a condition) (IsNoOp_expr ext b)"
| "IsNoOp_expr ext (NE a b) condition =
     Option.bind (IsNoOp_expr ext a condition) (IsNoOp_expr ext b)"
| "IsNoOp_expr ext (LT a b) condition =
     Option.bind (IsNoOp_expr ext a condition) (IsNoOp_expr ext b)"
| "IsNoOp_expr ext (LE a b) condition =
     Option.bind (IsNoOp_expr ext a condition) (IsNoOp_expr ext b)"
| "IsNoOp_expr ext (GT a b) condition =
     Option.bind (IsNoOp_expr ext a condition) (IsNoOp_expr ext b)"
| "IsNoOp_expr ext (GE a b) condition =
     Option.bind (IsNoOp_expr ext a condition) (IsNoOp_expr ext b)"
| "IsNoOp_expr ext (And a b) condition =
     Option.bind (IsNoOp_expr ext a condition) (IsNoOp_expr ext b)"
| "IsNoOp_expr ext (Or a b) condition =
     Option.bind (IsNoOp_expr ext a condition) (IsNoOp_expr ext b)"
| "IsNoOp_expr ext (Not' a) condition = IsNoOp_expr ext a condition"
| "IsNoOp_expr ext (Select c a b) condition =
     Option.bind (Option.bind (IsNoOp_expr ext c condition) (IsNoOp_expr ext a))
       (IsNoOp_expr ext b)"
| "IsNoOp_expr ext (Load t n i) condition = IsNoOp_expr ext i condition"
| "IsNoOp_expr ext (Broadcast e w) condition = IsNoOp_expr ext e condition"
| "IsNoOp_expr ext (Call t n args ct) condition =
     (if ct = Intrinsic \<and> (n = rewrite_buffer \<or> n = image_store \<or> n = copy_memory)
      then Some const_false
      else IsNoOp_exprs ext args condition)"
| "IsNoOp_expr ext (Let' x v b) condition =
     Option.bind (Option.bind (IsNoOp_expr ext v condition) (IsNoOp_expr ext b))
       (\<lambda>c. Some (if expr_uses_var c x then Let' x v c else c))"
| "IsNoOp_exprs ext [] condition = Some condition"
| "IsNoOp_exprs ext (e # es) condition =
     Option.bind (IsNoOp_expr ext e condition) (IsNoOp_exprs ext es)"
| "IsNoOp_stmt ext (LetStmt x v b) condition =
     Option.bind (Option.bind (IsNoOp_expr ext v condition) (IsNoOp_stmt ext b))
       (\<lambda>c. Some (if expr_uses_var c x then Let' x v c else c))"
| "IsNoOp_stmt ext (AssertStmt c m) condition =
     Option.bind (IsNoOp_expr ext c condition) (IsNoOp_expr ext m)"
| "IsNoOp_stmt ext (ProducerConsumer n produce update consume) condition =
     Option.bind
       (Option.bind (IsNoOp_stmt ext produce condition)
          (\<lambda>c. case update of None \<Rightarrow> Some c | Some u \<Rightarrow> IsNoOp_stmt ext u c))
       (IsNoOp_stmt ext consume)"
| "IsNoOp_stmt ext (For n mn extent ft da body) condition =
     Option.bind (IsNoOp_stmt ext body const_true) (\<lambda>c.
       let old_condition = condition;
           varying = [(n, Interval mn (Sub (Add mn extent) (make_const (type_of mn) 1)))];
           c = simplify ext (common_subexpression_elimination ext c);
           c = and_condition_over_domain ext c varying
       in Some (make_and old_condition
                  (make_or c (simplify ext (LE extent (IntImm (Int_t 32) 0))))))"
| "IsNoOp_stmt ext (Store n v i) condition =
     (if is_handle (type_of v) then Some const_false
      else
        let equivalent_load = Load (type_of v) n i
        in Option.bind (StripIdentities_mutate (EQ equivalent_load v)) (\<lambda>is_no_op.
             Some (make_and condition (and_condition_over_domain ext is_no_op []))))"
| "IsNoOp_stmt ext (Allocate n t extents c body) condition =
     Option.bind (Option.bind (IsNoOp_exprs ext extents condition) (IsNoOp_expr ext c))
       (IsNoOp_stmt ext body)"
| "IsNoOp_stmt ext (Free n) condition = Some condition"
| "IsNoOp_stmt ext (Block first rest) condition =
     Option.bind (IsNoOp_stmt ext first condition) (IsNoOp_stmt ext rest)"
| "IsNoOp_stmt ext (IfThenElse c then_case else_case) condition =
     Option.bind (IsNoOp_stmt ext then_case const_true) (\<lambda>then_condition.
       let total_condition = make_and condition (make_or (Not' c) then_condition)
       in case else_case of
            None \<Rightarrow> Some total_condition
          | Some e \<Rightarrow>
              Option.bind (IsNoOp_stmt ext e const_true) (\<lambda>else_condition.
                Some (make_and total_condition (make_or c else_condition))))"
| "IsNoOp_stmt ext (Evaluate e) condition = IsNoOp_expr ext e condition"


section \<open>SimplifyUsingBounds\<close>

text \<open>
  The mutator carries the stack \<open>containing_loops\<close> of the enclosing loops and lets,
  in the order they were pushed (the innermost last). \<open>prove_loops\<close> is the body of
  the loop of \<open>provably_true_over_domain\<close>, run over the stack from the innermost
  entry outwards: it stops at a constant test, skips an entry whose variable the test does
  not use, substitutes a single-point interval through a let, and otherwise solves for the
  variable and relaxes the test over the entry's interval; it simplifies after each such
  step. The source compares the two bounds of an entry by node identity
  (\<^verbatim>\<open>same_as\<close>): two present bounds are the same when the interval says they
  are one node, a present and an absent bound never are, and two absent bounds are both
  the null handle. The entry of a let holds one node twice; the entry of a for-loop holds
  \<open>min\<close> and the new node \<open>min + extent - 1\<close>; the seeded entry is as the outer
  solver returned it. An entry with both bounds absent is never on the stack: the trimmer
  seeds the mutator only with an interval that is not everything (line 316). The source
  would hand such an entry's undefined bound to \<^verbatim>\<open>Let::make\<close>; the model
  stops there with the test unproved.
\<close>

definition same_as :: "interval \<Rightarrow> bool" where
  "same_as i =
     (case (i_min i, i_max i) of
        (Some x, Some y) \<Rightarrow> i_same i
      | (None, None) \<Rightarrow> True
      | _ \<Rightarrow> False)"

fun prove_loops :: "'u collaborators \<Rightarrow> scope \<Rightarrow> expr \<Rightarrow> expr" where
  "prove_loops ext [] test = test"
| "prove_loops ext ((var, i) # outer) test =
     (if is_const test then test
      else if \<not> expr_uses_var test var then prove_loops ext outer test
      else if same_as i \<and> expr_uses_var test var then
        (case i_min i of
           Some m \<Rightarrow>
             prove_loops ext outer
               (simplify ext (common_subexpression_elimination ext (Let' var m test)))
         | None \<Rightarrow> test)
      else
        let solved = solve_expression ext test var;
            test = (case solved of Some s \<Rightarrow> s | None \<Rightarrow> test);
            test = and_condition_over_domain ext test [(var, i)]
        in prove_loops ext outer (simplify ext test))"

definition provably_true_over_domain :: "'u collaborators \<Rightarrow> scope \<Rightarrow> expr \<Rightarrow> bool" where
  "provably_true_over_domain ext containing_loops test =
     is_one (prove_loops ext (rev containing_loops) test)"

text \<open>
  \<open>visit_cmp\<close> takes the type of the visited comparison and the comparison rebuilt
  from its mutated operands.
\<close>

definition visit_cmp :: "'u collaborators \<Rightarrow> scope \<Rightarrow> htype \<Rightarrow> expr \<Rightarrow> expr" where
  "visit_cmp ext containing_loops op_type e =
     (if provably_true_over_domain ext containing_loops e then make_one op_type
      else if provably_true_over_domain ext containing_loops (Not' e) then make_zero op_type
      else e)"

fun SimplifyUsingBounds_mutate :: "'u collaborators \<Rightarrow> scope \<Rightarrow> expr \<Rightarrow> expr" where
  "SimplifyUsingBounds_mutate ext cl (IntImm t v) = IntImm t v"
| "SimplifyUsingBounds_mutate ext cl (UIntImm t v) = UIntImm t v"
| "SimplifyUsingBounds_mutate ext cl (Cast t e) = Cast t (SimplifyUsingBounds_mutate ext cl e)"
| "SimplifyUsingBounds_mutate ext cl (Variable t x) = Variable t x"
| "SimplifyUsingBounds_mutate ext cl (Add a b) =
     Add (SimplifyUsingBounds_mutate ext cl a) (SimplifyUsingBounds_mutate ext cl b)"
| "SimplifyUsingBounds_mutate ext cl (Sub a b) =
     Sub (SimplifyUsingBounds_mutate ext cl a) (SimplifyUsingBounds_mutate ext cl b)"
| "SimplifyUsingBounds_mutate ext cl (Mul a b) =
     Mul (SimplifyUsingBounds_mutate ext cl a) (SimplifyUsingBounds_mutate ext cl b)"
| "SimplifyUsingBounds_mutate ext cl (Div a b) =
     Div (SimplifyUsingBounds_mutate ext cl a) (SimplifyUsingBounds_mutate ext cl b)"
| "SimplifyUsingBounds_mutate ext cl (Mod a b) =
     Mod (SimplifyUsingBounds_mutate ext cl a) (SimplifyUsingBounds_mutate ext cl b)"
| "SimplifyUsingBounds_mutate ext cl (Min' a b) =
     (if \<not> is_int (type_of (Min' a b)) \<or> tbits (type_of (Min' a b)) < 32 then
        Min' (SimplifyUsingBounds_mutate ext cl a) (SimplifyUsingBounds_mutate ext cl b)
      else
        let a' = SimplifyUsingBounds_mutate ext cl a;
            b' = SimplifyUsingBounds_mutate ext cl b
        in if provably_true_over_domain ext cl (LE a' b') then a'
           else if provably_true_over_domain ext cl (LE b' a') then b'
           else Min' a' b')"
| "SimplifyUsingBounds_mutate ext cl (Max' a b) =
     (if \<not> is_int (type_of (Max' a b)) \<or> tbits (type_of (Max' a b)) < 32 then
        Max' (SimplifyUsingBounds_mutate ext cl a) (SimplifyUsingBounds_mutate ext cl b)
      else
        let a' = SimplifyUsingBounds_mutate ext cl a;
            b' = SimplifyUsingBounds_mutate ext cl b
        in if provably_true_over_domain ext cl (GE a' b') then a'
           else if provably_true_over_domain ext cl (GE b' a') then b'
           else Max' a' b')"
| "SimplifyUsingBounds_mutate ext cl (EQ a b) =
     visit_cmp ext cl (type_of (EQ a b))
       (EQ (SimplifyUsingBounds_mutate ext cl a) (SimplifyUsingBounds_mutate ext cl b))"
| "SimplifyUsingBounds_mutate ext cl (NE a b) =
     visit_cmp ext cl (type_of (NE a b))
       (NE (SimplifyUsingBounds_mutate ext cl a) (SimplifyUsingBounds_mutate ext cl b))"
| "SimplifyUsingBounds_mutate ext cl (LT a b) =
     visit_cmp ext cl (type_of (LT a b))
       (LT (SimplifyUsingBounds_mutate ext cl a) (SimplifyUsingBounds_mutate ext cl b))"
| "SimplifyUsingBounds_mutate ext cl (LE a b) =
     visit_cmp ext cl (type_of (LE a b))
       (LE (SimplifyUsingBounds_mutate ext cl a) (SimplifyUsingBounds_mutate ext cl b))"
| "SimplifyUsingBounds_mutate ext cl (GT a b) =
     visit_cmp ext cl (type_of (GT a b))
       (GT (SimplifyUsingBounds_mutate ext cl a) (SimplifyUsingBounds_mutate ext cl b))"
| "SimplifyUsingBounds_mutate ext cl (GE a b) =
     visit_cmp ext cl (type_of (GE a b))
       (GE (SimplifyUsingBounds_mutate ext cl a) (SimplifyUsingBounds_mutate ext cl b))"
| "SimplifyUsingBounds_mutate ext cl (And a b) =
     And (SimplifyUsingBounds_mutate ext cl a) (SimplifyUsingBounds_mutate ext cl b)"
| "SimplifyUsingBounds_mutate ext cl (Or a b) =
     Or (SimplifyUsingBounds_mutate ext cl a) (SimplifyUsingBounds_mutate ext cl b)"
| "SimplifyUsingBounds_mutate ext cl (Not' a) = Not' (SimplifyUsingBounds_mutate ext cl a)"
| "SimplifyUsingBounds_mutate ext cl (Select c a b) =
     Select (SimplifyUsingBounds_mutate ext cl c) (SimplifyUsingBounds_mutate ext cl a)
       (SimplifyUsingBounds_mutate ext cl b)"
| "SimplifyUsingBounds_mutate ext cl (Load t n i) =
     Load t n (SimplifyUsingBounds_mutate ext cl i)"
| "SimplifyUsingBounds_mutate ext cl (Broadcast e w) =
     Broadcast (SimplifyUsingBounds_mutate ext cl e) w"
| "SimplifyUsingBounds_mutate ext cl (Call t n args ct) =
     Call t n (map (SimplifyUsingBounds_mutate ext cl) args) ct"
| "SimplifyUsingBounds_mutate ext cl (Let' x v b) =
     (let v' = SimplifyUsingBounds_mutate ext cl v;
          b' = SimplifyUsingBounds_mutate ext (cl @ [(x, Interval_point v')]) b
      in Let' x v' b')"

fun SimplifyUsingBounds_mutate_stmt :: "'u collaborators \<Rightarrow> scope \<Rightarrow> stmt \<Rightarrow> stmt" where
  "SimplifyUsingBounds_mutate_stmt ext cl (LetStmt x v b) =
     (let v' = SimplifyUsingBounds_mutate ext cl v;
          b' = SimplifyUsingBounds_mutate_stmt ext (cl @ [(x, Interval_point v')]) b
      in LetStmt x v' b')"
| "SimplifyUsingBounds_mutate_stmt ext cl (AssertStmt c m) =
     AssertStmt (SimplifyUsingBounds_mutate ext cl c) (SimplifyUsingBounds_mutate ext cl m)"
| "SimplifyUsingBounds_mutate_stmt ext cl (ProducerConsumer n produce update consume) =
     ProducerConsumer n (SimplifyUsingBounds_mutate_stmt ext cl produce)
       (case update of None \<Rightarrow> None | Some u \<Rightarrow> Some (SimplifyUsingBounds_mutate_stmt ext cl u))
       (SimplifyUsingBounds_mutate_stmt ext cl consume)"
| "SimplifyUsingBounds_mutate_stmt ext cl (For n mn extent ft da body) =
     (let mn' = SimplifyUsingBounds_mutate ext cl mn;
          extent' = SimplifyUsingBounds_mutate ext cl extent;
          i = Interval mn' (Sub (Add mn' extent') (make_const (type_of mn') 1));
          body' = SimplifyUsingBounds_mutate_stmt ext (cl @ [(n, i)]) body
      in For n mn' extent' ft da body')"
| "SimplifyUsingBounds_mutate_stmt ext cl (Store n v i) =
     Store n (SimplifyUsingBounds_mutate ext cl v) (SimplifyUsingBounds_mutate ext cl i)"
| "SimplifyUsingBounds_mutate_stmt ext cl (Allocate n t extents c body) =
     Allocate n t (map (SimplifyUsingBounds_mutate ext cl) extents)
       (SimplifyUsingBounds_mutate ext cl c) (SimplifyUsingBounds_mutate_stmt ext cl body)"
| "SimplifyUsingBounds_mutate_stmt ext cl (Free n) = Free n"
| "SimplifyUsingBounds_mutate_stmt ext cl (Block first rest) =
     Block (SimplifyUsingBounds_mutate_stmt ext cl first)
       (SimplifyUsingBounds_mutate_stmt ext cl rest)"
| "SimplifyUsingBounds_mutate_stmt ext cl (IfThenElse c then_case else_case) =
     IfThenElse (SimplifyUsingBounds_mutate ext cl c)
       (SimplifyUsingBounds_mutate_stmt ext cl then_case)
       (case else_case of None \<Rightarrow> None
        | Some e \<Rightarrow> Some (SimplifyUsingBounds_mutate_stmt ext cl e))"
| "SimplifyUsingBounds_mutate_stmt ext cl (Evaluate e) =
     Evaluate (SimplifyUsingBounds_mutate ext cl e)"


section \<open>TrimNoOps\<close>

text \<open>
  The mutator overrides the for-loop only; every other statement is rebuilt from its
  mutated children as \<^verbatim>\<open>IRMutator\<close> does, and an expression, which holds no
  statement, comes back as it is. The functions thread the supply of unique names, and
  return \<open>None\<close> where \<open>IsNoOp\<close> does.
\<close>

fun TrimNoOps_mutate :: "'u collaborators \<Rightarrow> stmt \<Rightarrow> 'u \<Rightarrow> (stmt \<times> 'u) option" where
  "TrimNoOps_mutate ext (LetStmt x v b) u =
     Option.bind (TrimNoOps_mutate ext b u) (\<lambda>(b', u). Some (LetStmt x v b', u))"
| "TrimNoOps_mutate ext (AssertStmt c m) u = Some (AssertStmt c m, u)"
| "TrimNoOps_mutate ext (ProducerConsumer n produce update consume) u =
     Option.bind (TrimNoOps_mutate ext produce u) (\<lambda>(produce', u).
     Option.bind
       (case update of
          None \<Rightarrow> Some (None, u)
        | Some s \<Rightarrow> Option.bind (TrimNoOps_mutate ext s u) (\<lambda>(s', u). Some (Some s', u)))
       (\<lambda>(update', u).
     Option.bind (TrimNoOps_mutate ext consume u) (\<lambda>(consume', u).
       Some (ProducerConsumer n produce' update' consume', u))))"
| "TrimNoOps_mutate ext (For name mn extent ft da body0) u =
     Option.bind (TrimNoOps_mutate ext body0 u) (\<lambda>(body, u).
     Option.bind (IsNoOp_stmt ext body const_true) (\<lambda>condition.
       let condition =
             simplify ext (simplify ext (common_subexpression_elimination ext condition))
       in
       if is_one condition then Some (Evaluate (IntImm (Int_t 32) 0), u)
       else if is_zero condition then Some (For name mn extent ft da body, u)
       else
         let i = solve_for_outer_interval ext (Not' condition) name in
         if interval_is_everything i then Some (For name mn extent ft da body, u)
         else
           let body = simplify_stmt ext (SimplifyUsingBounds_mutate_stmt ext [(name, i)] body);
               (new_min_name, u) = unique_name ext (name @ ''.new_min'') u;
               (new_max_name, u) = unique_name ext (name @ ''.new_max'') u;
               (old_max_name, u) = unique_name ext (name @ ''.old_max'') u;
               new_min_var = Variable (Int_t 32) new_min_name;
               new_max_var = Variable (Int_t 32) new_max_name;
               old_max_var = Variable (Int_t 32) old_max_name;
               i = (case i_max i of
                      Some m \<Rightarrow> i\<lparr>i_max := Some (Add m (make_const (type_of m) 1)),
                                i_same := False\<rparr>
                    | None \<Rightarrow> i);
               old_max = Add mn extent;
               new_min = (case i_min i of
                            Some m \<Rightarrow> clamp m mn old_max_var
                          | None \<Rightarrow> mn);
               new_max = (case i_max i of
                            Some m \<Rightarrow> clamp m new_min_var old_max_var
                          | None \<Rightarrow> old_max);
               new_extent = Sub new_max_var new_min_var;
               s = For name new_min_var new_extent ft da body;
               s = LetStmt new_max_name new_max s;
               s = LetStmt new_min_name new_min s;
               s = LetStmt old_max_name old_max s
           in Some (simplify_stmt ext s, u)))"
| "TrimNoOps_mutate ext (Store n v i) u = Some (Store n v i, u)"
| "TrimNoOps_mutate ext (Allocate n t extents c body) u =
     Option.bind (TrimNoOps_mutate ext body u) (\<lambda>(body', u).
       Some (Allocate n t extents c body', u))"
| "TrimNoOps_mutate ext (Free n) u = Some (Free n, u)"
| "TrimNoOps_mutate ext (Block first rest) u =
     Option.bind (TrimNoOps_mutate ext first u) (\<lambda>(first', u).
     Option.bind (TrimNoOps_mutate ext rest u) (\<lambda>(rest', u).
       Some (Block first' rest', u)))"
| "TrimNoOps_mutate ext (IfThenElse c then_case else_case) u =
     Option.bind (TrimNoOps_mutate ext then_case u) (\<lambda>(then_case', u).
       case else_case of
         None \<Rightarrow> Some (IfThenElse c then_case' None, u)
       | Some e \<Rightarrow>
           Option.bind (TrimNoOps_mutate ext e u) (\<lambda>(e', u).
             Some (IfThenElse c then_case' (Some e'), u)))"
| "TrimNoOps_mutate ext (Evaluate e) u = Some (Evaluate e, u)"

definition trim_no_ops :: "'u collaborators \<Rightarrow> stmt \<Rightarrow> 'u \<Rightarrow> (stmt \<times> 'u) option" where
  "trim_no_ops ext s u = TrimNoOps_mutate ext s u"


section \<open>A reference instance of the collaborators\<close>

text \<open>
  A small instance of the collaborators, used to run the pass on concrete statements. Its
  simplifier folds an equality of two equal integer expressions and a comparison of two
  integer immediates; its statement simplifier and its common-subexpression elimination
  change nothing; its domain relaxation simplifies, keeps a condition that uses no
  variable of the domain, relaxes \<open>x \<ge> e\<close> and \<open>x \<le> e\<close> at the matching end
  of the interval of \<open>x\<close>, and gives up with the constant false otherwise; its outer
  solver reads bounds off comparisons \<open>x \<ge> e\<close> and \<open>x \<le> e\<close>, intersects
  the intervals of a conjunction, takes the hull of the intervals of a disjunction, and
  swaps the two under a negation; its name generator appends a counter.
\<close>

fun as_const_int :: "expr \<Rightarrow> int option" where
  "as_const_int (IntImm t v) = Some v"
| "as_const_int e = None"

fun as_variable :: "expr \<Rightarrow> string option" where
  "as_variable (Variable t x) = Some x"
| "as_variable e = None"

fun ref_simplify :: "expr \<Rightarrow> expr" where
  "ref_simplify (EQ a b) =
     (if a = b \<and> is_int (type_of a) then const_true else EQ a b)"
| "ref_simplify (LE a b) =
     (case (as_const_int a, as_const_int b) of
        (Some x, Some y) \<Rightarrow> if x \<le> y then const_true else const_false
      | _ \<Rightarrow> LE a b)"
| "ref_simplify (GE a b) =
     (case (as_const_int a, as_const_int b) of
        (Some x, Some y) \<Rightarrow> if x \<ge> y then const_true else const_false
      | _ \<Rightarrow> GE a b)"
| "ref_simplify e = e"

definition scope_uses :: "scope \<Rightarrow> expr \<Rightarrow> bool" where
  "scope_uses sc e = list_ex (\<lambda>(x, i). expr_uses_var e x) sc"

definition ref_relax_bound :: "expr \<Rightarrow> expr \<Rightarrow> expr \<Rightarrow> scope \<Rightarrow> expr option" where
  "ref_relax_bound c a e sc =
     (case (as_variable a, sc) of
        (Some x, [(y, i)]) \<Rightarrow>
          if x = y \<and> \<not> expr_uses_var e x then
            (case c of
               GE p q \<Rightarrow> map_option (\<lambda>lo. ref_simplify (GE lo e)) (i_min i)
             | LE p q \<Rightarrow> map_option (\<lambda>hi. ref_simplify (LE hi e)) (i_max i)
             | _ \<Rightarrow> None)
          else None
      | _ \<Rightarrow> None)"

fun ref_relax :: "expr \<Rightarrow> scope \<Rightarrow> expr" where
  "ref_relax (GE a e) sc =
     (if \<not> scope_uses sc (GE a e) then GE a e
      else case ref_relax_bound (GE a e) a e sc of Some r \<Rightarrow> r | None \<Rightarrow> const_false)"
| "ref_relax (LE a e) sc =
     (if \<not> scope_uses sc (LE a e) then LE a e
      else case ref_relax_bound (LE a e) a e sc of Some r \<Rightarrow> r | None \<Rightarrow> const_false)"
| "ref_relax e sc = (if scope_uses sc e then const_false else e)"

definition ref_and_condition_over_domain :: "expr \<Rightarrow> scope \<Rightarrow> expr" where
  "ref_and_condition_over_domain e sc = ref_relax (ref_simplify e) sc"

definition interval_everything :: interval where
  "interval_everything = \<lparr>i_min = None, i_max = None, i_same = False\<rparr>"

definition interval_intersection :: "interval \<Rightarrow> interval \<Rightarrow> interval" where
  "interval_intersection a b =
     \<lparr>i_min = (case (i_min a, i_min b) of
                 (Some x, Some y) \<Rightarrow> Some (Max' x y)
               | (Some x, None) \<Rightarrow> Some x
               | (None, r) \<Rightarrow> r),
      i_max = (case (i_max a, i_max b) of
                 (Some x, Some y) \<Rightarrow> Some (Min' x y)
               | (Some x, None) \<Rightarrow> Some x
               | (None, r) \<Rightarrow> r),
      i_same = False\<rparr>"

definition interval_union :: "interval \<Rightarrow> interval \<Rightarrow> interval" where
  "interval_union a b =
     \<lparr>i_min = (case (i_min a, i_min b) of
                 (Some x, Some y) \<Rightarrow> Some (Min' x y)
               | _ \<Rightarrow> None),
      i_max = (case (i_max a, i_max b) of
                 (Some x, Some y) \<Rightarrow> Some (Max' x y)
               | _ \<Rightarrow> None),
      i_same = False\<rparr>"

definition ref_bound :: "bool \<Rightarrow> expr \<Rightarrow> expr \<Rightarrow> string \<Rightarrow> bool" where
  "ref_bound pos a e v = (pos \<and> as_variable a = Some v \<and> \<not> expr_uses_var e v)"

fun ref_outer :: "bool \<Rightarrow> expr \<Rightarrow> string \<Rightarrow> interval" where
  "ref_outer pos (GE a e) v =
     (if ref_bound pos a e v then \<lparr>i_min = Some e, i_max = None, i_same = False\<rparr>
      else interval_everything)"
| "ref_outer pos (LE a e) v =
     (if ref_bound pos a e v then \<lparr>i_min = None, i_max = Some e, i_same = False\<rparr>
      else interval_everything)"
| "ref_outer pos (And a b) v =
     (if pos then interval_intersection (ref_outer pos a v) (ref_outer pos b v)
      else interval_union (ref_outer pos a v) (ref_outer pos b v))"
| "ref_outer pos (Or a b) v =
     (if pos then interval_union (ref_outer pos a v) (ref_outer pos b v)
      else interval_intersection (ref_outer pos a v) (ref_outer pos b v))"
| "ref_outer pos (Not' a) v = ref_outer (\<not> pos) a v"
| "ref_outer pos e v = interval_everything"

fun decimal :: "nat \<Rightarrow> string" where
  "decimal n = (if 10 \<le> n then decimal (n div 10) else []) @ [char_of (n mod 10 + 48)]"

definition ref_unique_name :: "string \<Rightarrow> nat \<Rightarrow> string \<times> nat" where
  "ref_unique_name base u = (base @ ''$'' @ decimal u, Suc u)"

definition ref_ext :: "nat collaborators" where
  "ref_ext =
     \<lparr>simplify = ref_simplify,
      simplify_stmt = (\<lambda>s. s),
      common_subexpression_elimination = (\<lambda>e. e),
      and_condition_over_domain = ref_and_condition_over_domain,
      solve_expression = (\<lambda>e x. None),
      solve_for_outer_interval = ref_outer True,
      unique_name = ref_unique_name\<rparr>"


section \<open>Free and bound variables\<close>

text \<open>
  The free variables of an expression and of a statement: a let binds its name in its
  body, a for-loop binds its variable in its body (not in its bounds). The bound names of
  a statement are the variables of its for-loops and the names of its lets, the lets
  inside its expressions included.
\<close>

fun free_vars :: "expr \<Rightarrow> string set"
  and free_vars_list :: "expr list \<Rightarrow> string set" where
  "free_vars (IntImm t v) = {}"
| "free_vars (UIntImm t v) = {}"
| "free_vars (Cast t e) = free_vars e"
| "free_vars (Variable t x) = {x}"
| "free_vars (Add a b) = free_vars a \<union> free_vars b"
| "free_vars (Sub a b) = free_vars a \<union> free_vars b"
| "free_vars (Mul a b) = free_vars a \<union> free_vars b"
| "free_vars (Div a b) = free_vars a \<union> free_vars b"
| "free_vars (Mod a b) = free_vars a \<union> free_vars b"
| "free_vars (Min' a b) = free_vars a \<union> free_vars b"
| "free_vars (Max' a b) = free_vars a \<union> free_vars b"
| "free_vars (EQ a b) = free_vars a \<union> free_vars b"
| "free_vars (NE a b) = free_vars a \<union> free_vars b"
| "free_vars (LT a b) = free_vars a \<union> free_vars b"
| "free_vars (LE a b) = free_vars a \<union> free_vars b"
| "free_vars (GT a b) = free_vars a \<union> free_vars b"
| "free_vars (GE a b) = free_vars a \<union> free_vars b"
| "free_vars (And a b) = free_vars a \<union> free_vars b"
| "free_vars (Or a b) = free_vars a \<union> free_vars b"
| "free_vars (Not' a) = free_vars a"
| "free_vars (Select c a b) = free_vars c \<union> free_vars a \<union> free_vars b"
| "free_vars (Load t n i) = free_vars i"
| "free_vars (Broadcast e w) = free_vars e"
| "free_vars (Call t n args ct) = free_vars_list args"
| "free_vars (Let' x v b) = free_vars v \<union> (free_vars b - {x})"
| "free_vars_list [] = {}"
| "free_vars_list (e # es) = free_vars e \<union> free_vars_list es"

fun free_vars_stmt :: "stmt \<Rightarrow> string set" where
  "free_vars_stmt (LetStmt x v b) = free_vars v \<union> (free_vars_stmt b - {x})"
| "free_vars_stmt (AssertStmt c m) = free_vars c \<union> free_vars m"
| "free_vars_stmt (ProducerConsumer n produce update consume) =
     free_vars_stmt produce
       \<union> (case update of None \<Rightarrow> {} | Some s \<Rightarrow> free_vars_stmt s)
       \<union> free_vars_stmt consume"
| "free_vars_stmt (For n mn extent ft da body) =
     free_vars mn \<union> free_vars extent \<union> (free_vars_stmt body - {n})"
| "free_vars_stmt (Store n v i) = free_vars v \<union> free_vars i"
| "free_vars_stmt (Allocate n t extents c body) =
     free_vars_list extents \<union> free_vars c \<union> free_vars_stmt body"
| "free_vars_stmt (Free n) = {}"
| "free_vars_stmt (Block first rest) = free_vars_stmt first \<union> free_vars_stmt rest"
| "free_vars_stmt (IfThenElse c then_case else_case) =
     free_vars c \<union> free_vars_stmt then_case
       \<union> (case else_case of None \<Rightarrow> {} | Some s \<Rightarrow> free_vars_stmt s)"
| "free_vars_stmt (Evaluate e) = free_vars e"

fun bound_vars :: "expr \<Rightarrow> string set"
  and bound_vars_list :: "expr list \<Rightarrow> string set" where
  "bound_vars (IntImm t v) = {}"
| "bound_vars (UIntImm t v) = {}"
| "bound_vars (Cast t e) = bound_vars e"
| "bound_vars (Variable t x) = {}"
| "bound_vars (Add a b) = bound_vars a \<union> bound_vars b"
| "bound_vars (Sub a b) = bound_vars a \<union> bound_vars b"
| "bound_vars (Mul a b) = bound_vars a \<union> bound_vars b"
| "bound_vars (Div a b) = bound_vars a \<union> bound_vars b"
| "bound_vars (Mod a b) = bound_vars a \<union> bound_vars b"
| "bound_vars (Min' a b) = bound_vars a \<union> bound_vars b"
| "bound_vars (Max' a b) = bound_vars a \<union> bound_vars b"
| "bound_vars (EQ a b) = bound_vars a \<union> bound_vars b"
| "bound_vars (NE a b) = bound_vars a \<union> bound_vars b"
| "bound_vars (LT a b) = bound_vars a \<union> bound_vars b"
| "bound_vars (LE a b) = bound_vars a \<union> bound_vars b"
| "bound_vars (GT a b) = bound_vars a \<union> bound_vars b"
| "bound_vars (GE a b) = bound_vars a \<union> bound_vars b"
| "bound_vars (And a b) = bound_vars a \<union> bound_vars b"
| "bound_vars (Or a b) = bound_vars a \<union> bound_vars b"
| "bound_vars (Not' a) = bound_vars a"
| "bound_vars (Select c a b) = bound_vars c \<union> bound_vars a \<union> bound_vars b"
| "bound_vars (Load t n i) = bound_vars i"
| "bound_vars (Broadcast e w) = bound_vars e"
| "bound_vars (Call t n args ct) = bound_vars_list args"
| "bound_vars (Let' x v b) = {x} \<union> bound_vars v \<union> bound_vars b"
| "bound_vars_list [] = {}"
| "bound_vars_list (e # es) = bound_vars e \<union> bound_vars_list es"

fun bound_vars_stmt :: "stmt \<Rightarrow> string set" where
  "bound_vars_stmt (LetStmt x v b) = {x} \<union> bound_vars v \<union> bound_vars_stmt b"
| "bound_vars_stmt (AssertStmt c m) = bound_vars c \<union> bound_vars m"
| "bound_vars_stmt (ProducerConsumer n produce update consume) =
     bound_vars_stmt produce
       \<union> (case update of None \<Rightarrow> {} | Some s \<Rightarrow> bound_vars_stmt s)
       \<union> bound_vars_stmt consume"
| "bound_vars_stmt (For n mn extent ft da body) =
     {n} \<union> bound_vars mn \<union> bound_vars extent \<union> bound_vars_stmt body"
| "bound_vars_stmt (Store n v i) = bound_vars v \<union> bound_vars i"
| "bound_vars_stmt (Allocate n t extents c body) =
     bound_vars_list extents \<union> bound_vars c \<union> bound_vars_stmt body"
| "bound_vars_stmt (Free n) = {}"
| "bound_vars_stmt (Block first rest) = bound_vars_stmt first \<union> bound_vars_stmt rest"
| "bound_vars_stmt (IfThenElse c then_case else_case) =
     bound_vars c \<union> bound_vars_stmt then_case
       \<union> (case else_case of None \<Rightarrow> {} | Some s \<Rightarrow> bound_vars_stmt s)"
| "bound_vars_stmt (Evaluate e) = bound_vars e"

text \<open>
  What the inference of the no-op condition needs of its collaborators, as far as
  variables go: simplification and common-subexpression elimination introduce no free
  variable, and domain relaxation returns a condition whose free variables are those of
  the condition outside the domain, or occur in the bounds of the domain.
\<close>

definition scope_bound_vars :: "scope \<Rightarrow> string set" where
  "scope_bound_vars sc =
     (\<Union>(x, i) \<in> set sc.
        (case i_min i of None \<Rightarrow> {} | Some e \<Rightarrow> free_vars e)
          \<union> (case i_max i of None \<Rightarrow> {} | Some e \<Rightarrow> free_vars e))"

definition scoping_collaborators :: "'u collaborators \<Rightarrow> bool" where
  "scoping_collaborators ext =
     ((\<forall>e. free_vars (simplify ext e) \<subseteq> free_vars e)
      \<and> (\<forall>e. free_vars (common_subexpression_elimination ext e) \<subseteq> free_vars e)
      \<and> (\<forall>e sc. free_vars (and_condition_over_domain ext e sc)
             \<subseteq> (free_vars e - fst ` set sc) \<union> scope_bound_vars sc))"


section \<open>A reference interpreter\<close>

text \<open>
  Modelled from the spec: the meaning of the trees is not in the sources; the
  specification asks for a reference interpreter under which the pass is checked. Values
  are integers: arithmetic of an integer type of \<open>n\<close> bits wraps to \<open>n\<close> bits
  (signed or unsigned), a comparison or a boolean node yields 0 or 1, a load reads the
  memory, the identity intrinsics return the argument \<open>StripIdentities\<close> keeps, every
  other call is the uninterpreted function \<open>calls\<close> of its name and argument values,
  and a division by zero is 0. Floating point and vector lanes are outside the model: a
  value of such a type is an opaque integer.
\<close>

type_synonym env = "string \<Rightarrow> int"
type_synonym memory = "string \<Rightarrow> int \<Rightarrow> int"
type_synonym externs = "string \<Rightarrow> int list \<Rightarrow> int"

definition wrap :: "htype \<Rightarrow> int \<Rightarrow> int" where
  "wrap t v =
     (if tcode t = halide_type_int \<and> 0 < tbits t then signed_take_bit (tbits t - 1) v
      else if tcode t = halide_type_uint then take_bit (tbits t) v
      else v)"

fun eval :: "externs \<Rightarrow> env \<Rightarrow> memory \<Rightarrow> expr \<Rightarrow> int"
  and evals :: "externs \<Rightarrow> env \<Rightarrow> memory \<Rightarrow> expr list \<Rightarrow> int list" where
  "eval calls env mem (IntImm t v) = v"
| "eval calls env mem (UIntImm t v) = int v"
| "eval calls env mem (Cast t e) = wrap t (eval calls env mem e)"
| "eval calls env mem (Variable t x) = env x"
| "eval calls env mem (Add a b) = wrap (type_of a) (eval calls env mem a + eval calls env mem b)"
| "eval calls env mem (Sub a b) = wrap (type_of a) (eval calls env mem a - eval calls env mem b)"
| "eval calls env mem (Mul a b) = wrap (type_of a) (eval calls env mem a * eval calls env mem b)"
| "eval calls env mem (Div a b) =
     (if eval calls env mem b = 0 then 0
      else wrap (type_of a) (eval calls env mem a div eval calls env mem b))"
| "eval calls env mem (Mod a b) =
     (if eval calls env mem b = 0 then 0
      else wrap (type_of a) (eval calls env mem a mod eval calls env mem b))"
| "eval calls env mem (Min' a b) = min (eval calls env mem a) (eval calls env mem b)"
| "eval calls env mem (Max' a b) = max (eval calls env mem a) (eval calls env mem b)"
| "eval calls env mem (EQ a b) = of_bool (eval calls env mem a = eval calls env mem b)"
| "eval calls env mem (NE a b) = of_bool (eval calls env mem a \<noteq> eval calls env mem b)"
| "eval calls env mem (LT a b) = of_bool (eval calls env mem a < eval calls env mem b)"
| "eval calls env mem (LE a b) = of_bool (eval calls env mem a \<le> eval calls env mem b)"
| "eval calls env mem (GT a b) = of_bool (eval calls env mem a > eval calls env mem b)"
| "eval calls env mem (GE a b) = of_bool (eval calls env mem a \<ge> eval calls env mem b)"
| "eval calls env mem (And a b) =
     of_bool (eval calls env mem a \<noteq> 0 \<and> eval calls env mem b \<noteq> 0)"
| "eval calls env mem (Or a b) =
     of_bool (eval calls env mem a \<noteq> 0 \<or> eval calls env mem b \<noteq> 0)"
| "eval calls env mem (Not' a) = of_bool (eval calls env mem a = 0)"
| "eval calls env mem (Select c a b) =
     (if eval calls env mem c \<noteq> 0 then eval calls env mem a else eval calls env mem b)"
| "eval calls env mem (Load t n i) = mem n (eval calls env mem i)"
| "eval calls env mem (Broadcast e w) = eval calls env mem e"
| "eval calls env mem (Call t n args ct) =
     (if ct = Intrinsic \<and> n = trace_expr then
        (case args of
           a0 # a1 # a2 # a3 # a4 # rest \<Rightarrow> eval calls env mem a4
         | _ \<Rightarrow> calls n (evals calls env mem args))
      else if ct = Intrinsic \<and> (n = return_second \<or> n = likely) then
        (case rev args of
           a # rest \<Rightarrow> eval calls env mem a
         | [] \<Rightarrow> calls n [])
      else calls n (evals calls env mem args))"
| "eval calls env mem (Let' x v b) = eval calls (env(x := eval calls env mem v)) mem b"
| "evals calls env mem [] = []"
| "evals calls env mem (e # es) = eval calls env mem e # evals calls env mem es"

text \<open>
  A statement transforms the memory, or fails at an assertion (\<open>None\<close>). A for-loop runs
  its body for the loop variable from the minimum upwards, as many times as the extent
  says (not at all for an extent of zero or less), whatever its loop kind; an allocation
  gives its buffer back on leaving its body; a store writes one cell.
\<close>

fun for_loop :: "(int \<Rightarrow> memory \<Rightarrow> memory option) \<Rightarrow> int \<Rightarrow> nat \<Rightarrow> memory \<Rightarrow> memory option" where
  "for_loop f i 0 mem = Some mem"
| "for_loop f i (Suc k) mem = Option.bind (f i mem) (for_loop f (i + 1) k)"

lemma for_loop_cong [fundef_cong]:
  "(\<And>j m. f j m = g j m) \<Longrightarrow> i = i' \<Longrightarrow> k = k' \<Longrightarrow> mem = mem'
     \<Longrightarrow> for_loop f i k mem = for_loop g i' k' mem'"
  by (subgoal_tac "f = g") auto

fun exec :: "externs \<Rightarrow> stmt \<Rightarrow> env \<Rightarrow> memory \<Rightarrow> memory option" where
  "exec calls (LetStmt x v b) env mem = exec calls b (env(x := eval calls env mem v)) mem"
| "exec calls (AssertStmt c m) env mem = (if eval calls env mem c \<noteq> 0 then Some mem else None)"
| "exec calls (ProducerConsumer n produce update consume) env mem =
     Option.bind
       (Option.bind (exec calls produce env mem)
          (\<lambda>m. case update of None \<Rightarrow> Some m | Some s \<Rightarrow> exec calls s env m))
       (exec calls consume env)"
| "exec calls (For n mn extent ft da body) env mem =
     for_loop (\<lambda>i. exec calls body (env(n := i)))
       (eval calls env mem mn) (nat (eval calls env mem extent)) mem"
| "exec calls (Store n v i) env mem =
     Some (mem(n := (mem n)(eval calls env mem i := eval calls env mem v)))"
| "exec calls (Allocate n t extents c body) env mem =
     map_option (\<lambda>m. m(n := mem n)) (exec calls body env mem)"
| "exec calls (Free n) env mem = Some mem"
| "exec calls (Block first rest) env mem =
     Option.bind (exec calls first env mem) (exec calls rest env)"
| "exec calls (IfThenElse c then_case else_case) env mem =
     (if eval calls env mem c \<noteq> 0 then exec calls then_case env mem
      else case else_case of None \<Rightarrow> Some mem | Some s \<Rightarrow> exec calls s env mem)"
| "exec calls (Evaluate e) env mem = Some mem"

text \<open>
  The environment after the leading lets of a statement, each let evaluated in turn, and
  the first iteration and the extent of the for-loop under them.
\<close>

fun lets_env :: "externs \<Rightarrow> env \<Rightarrow> memory \<Rightarrow> stmt \<Rightarrow> env" where
  "lets_env calls env mem (LetStmt x v b) = lets_env calls (env(x := eval calls env mem v)) mem b"
| "lets_env calls env mem s = env"

fun loop_range :: "externs \<Rightarrow> env \<Rightarrow> memory \<Rightarrow> stmt \<Rightarrow> (int \<times> int) option" where
  "loop_range calls env mem (LetStmt x v b) =
     loop_range calls (env(x := eval calls env mem v)) mem b"
| "loop_range calls env mem (For n mn extent ft da body) =
     Some (eval calls env mem mn, eval calls env mem extent)"
| "loop_range calls env mem s = None"

section \<open>Notions the claims are stated with\<close>

text \<open>
  \<open>no_narrowing ext s u\<close>: run on \<open>s\<close> with the name supply \<open>u\<close>, the loop
  trimmer narrows no loop of \<open>s\<close>, that is, every for-loop of \<open>s\<close> ends in one of
  the outcomes "removed" or "rebuilt with its own bounds" (or the run fails inside it).
\<close>

fun no_narrowing :: "'u collaborators \<Rightarrow> stmt \<Rightarrow> 'u \<Rightarrow> bool" where
  "no_narrowing ext (LetStmt x v b) u = no_narrowing ext b u"
| "no_narrowing ext (AssertStmt c m) u = True"
| "no_narrowing ext (ProducerConsumer n produce update consume) u =
     (no_narrowing ext produce u
      \<and> (case update of None \<Rightarrow> True | Some s \<Rightarrow> no_narrowing ext s u)
      \<and> no_narrowing ext consume u)"
| "no_narrowing ext (For name mn extent ft da body0) u =
     (no_narrowing ext body0 u
      \<and> (case TrimNoOps_mutate ext body0 u of
           None \<Rightarrow> True
         | Some (body, u1) \<Rightarrow>
             (case IsNoOp_stmt ext body const_true of
                None \<Rightarrow> True
              | Some c \<Rightarrow>
                  let t = simplify ext (simplify ext (common_subexpression_elimination ext c))
                  in is_one t \<or> is_zero t
                     \<or> interval_is_everything (solve_for_outer_interval ext (Not' t) name))))"
| "no_narrowing ext (Store n v i) u = True"
| "no_narrowing ext (Allocate n t extents c body) u = no_narrowing ext body u"
| "no_narrowing ext (Free n) u = True"
| "no_narrowing ext (Block first rest) u =
     (no_narrowing ext first u \<and> no_narrowing ext rest u)"
| "no_narrowing ext (IfThenElse c then_case else_case) u =
     (no_narrowing ext then_case u
      \<and> (case else_case of None \<Rightarrow> True | Some s \<Rightarrow> no_narrowing ext s u))"
| "no_narrowing ext (Evaluate e) u = True"

text \<open>
  The specification's wording of two steps of the loop trimmer, to be compared with what
  the source does: the no-op condition "simplified and common-subexpression-eliminated
  twice", and an interval that "covers the whole original range" of a loop with constant
  bounds.
\<close>

definition spec_simplify_and_cse_twice :: "'u collaborators \<Rightarrow> expr \<Rightarrow> expr" where
  "spec_simplify_and_cse_twice ext c =
     simplify ext (common_subexpression_elimination ext
       (simplify ext (common_subexpression_elimination ext c)))"

definition spec_covers_range :: "interval \<Rightarrow> expr \<Rightarrow> expr \<Rightarrow> bool" where
  "spec_covers_range i mn extent =
     (case (as_const_int mn, as_const_int extent) of
        (Some a, Some n) \<Rightarrow>
          (case i_min i of
             None \<Rightarrow> True
           | Some lo \<Rightarrow> (case as_const_int lo of Some l \<Rightarrow> l \<le> a | None \<Rightarrow> False))
          \<and> (case i_max i of
               None \<Rightarrow> True
             | Some hi \<Rightarrow> (case as_const_int hi of Some h \<Rightarrow> a + n - 1 \<le> h | None \<Rightarrow> False))
      | _ \<Rightarrow> False)"

text \<open>
  Collaborators that record their applications: the simplifier and the
  common-subexpression elimination wrap their argument in a call of their own name, the
  relaxation returns the condition, and the outer solver returns the condition it is
  asked about as the lower bound, so that the output of the pass shows what was applied
  to the condition, and how often.
\<close>

definition recording_ext :: "nat collaborators" where
  "recording_ext =
     \<lparr>simplify = (\<lambda>e. Call (type_of e) ''simplify'' [e] Extern),
      simplify_stmt = (\<lambda>s. s),
      common_subexpression_elimination =
        (\<lambda>e. Call (type_of e) ''common_subexpression_elimination'' [e] Extern),
      and_condition_over_domain = (\<lambda>e sc. e),
      solve_expression = (\<lambda>e x. None),
      solve_for_outer_interval = (\<lambda>e x. \<lparr>i_min = Some e, i_max = None, i_same = False\<rparr>),
      unique_name = ref_unique_name\<rparr>"

subsection \<open>Example statements\<close>

definition i32 :: "int \<Rightarrow> expr" where
  "i32 v = IntImm (Int_t 32) v"

definition var32 :: "string \<Rightarrow> expr" where
  "var32 x = Variable (Int_t 32) x"

text \<open>\<open>a[i] = a[i]\<close>, the body of the dead loop of the specification.\<close>

definition dead_store :: stmt where
  "dead_store = Store ''a'' (Load (Int_t 32) ''a'' (var32 ''i'')) (var32 ''i'')"

text \<open>\<open>if (i <= 20) image_store()\<close>, \<open>if (i >= 2) image_store()\<close> and
  \<open>if (i >= n) a[i] = 1\<close>.\<close>

definition guarded_le20 :: stmt where
  "guarded_le20 =
     IfThenElse (LE (var32 ''i'') (i32 20))
       (Evaluate (Call (Int_t 32) image_store [] Intrinsic)) None"

definition guarded_ge2 :: stmt where
  "guarded_ge2 =
     IfThenElse (GE (var32 ''i'') (i32 2))
       (Evaluate (Call (Int_t 32) image_store [] Intrinsic)) None"

definition guarded_store :: stmt where
  "guarded_store =
     IfThenElse (GE (var32 ''i'') (var32 ''n'')) (Store ''a'' (i32 1) (var32 ''i'')) None"

text \<open>\<open>if (i <= a[0]) a[0] = a[0] + 1\<close>: the guard reads the cell the store writes.\<close>

definition counting_store :: stmt where
  "counting_store =
     IfThenElse (LE (var32 ''i'') (Load (Int_t 32) ''a'' (i32 0)))
       (Store ''a'' (Add (Load (Int_t 32) ''a'' (i32 0)) (i32 1)) (i32 0)) None"


text \<open>
  The statement the narrowing outcome hands to the statement simplifier, built from the
  three names, the three bound values, the variable, the tags and the body of the loop; and
  two narrowed loops as the reference run emits them.
\<close>

definition narrowed ::
  "string \<Rightarrow> string \<Rightarrow> string \<Rightarrow> expr \<Rightarrow> expr \<Rightarrow> expr
     \<Rightarrow> string \<Rightarrow> for_type \<Rightarrow> device_api \<Rightarrow> stmt \<Rightarrow> stmt" where
  "narrowed old_max_name new_min_name new_max_name old_max new_min new_max name ft da body =
     LetStmt old_max_name old_max
       (LetStmt new_min_name new_min
          (LetStmt new_max_name new_max
             (For name (var32 new_min_name)
                (Sub (var32 new_max_name) (var32 new_min_name)) ft da body)))"

definition narrowed_guarded_store :: stmt where
  "narrowed_guarded_store =
     narrowed ''i.old_max$2'' ''i.new_min$0'' ''i.new_max$1''
       (Add (i32 0) (i32 100))
       (clamp (var32 ''n'') (i32 0) (var32 ''i.old_max$2''))
       (Add (i32 0) (i32 100))
       ''i'' Serial Host guarded_store"

definition recorded_loop :: "expr \<Rightarrow> stmt" where
  "recorded_loop tested =
     narrowed ''i.old_max$2'' ''i.new_min$0'' ''i.new_max$1''
       (Add (i32 0) (i32 10))
       (clamp (Not' tested) (i32 0) (var32 ''i.old_max$2''))
       (Add (i32 0) (i32 10))
       ''i'' Serial Host (Evaluate (i32 0))"

text \<open>\<open>let x = n + 1 in a[x] = 0\<close>.\<close>

definition let_store :: stmt where
  "let_store =
     LetStmt ''x'' (Add (var32 ''n'') (i32 1)) (Store ''a'' (i32 0) (var32 ''x''))"

text \<open>
  \<open>if (i >= n || i >= m) a[i] = 1\<close>, its loop narrowed, and the narrowed loop narrowed
  once more; then a block of a dead loop and a loop that stores.
\<close>

definition guarded_either :: stmt where
  "guarded_either =
     IfThenElse (Or (GE (var32 ''i'') (var32 ''n'')) (GE (var32 ''i'') (var32 ''m'')))
       (Store ''a'' (i32 1) (var32 ''i'')) None"

definition narrowed_guarded_either :: stmt where
  "narrowed_guarded_either =
     narrowed ''i.old_max$2'' ''i.new_min$0'' ''i.new_max$1''
       (Add (i32 0) (i32 100))
       (clamp (Min' (var32 ''n'') (var32 ''m'')) (i32 0) (var32 ''i.old_max$2''))
       (Add (i32 0) (i32 100))
       ''i'' Serial Host guarded_either"

definition renarrowed_guarded_either :: stmt where
  "renarrowed_guarded_either =
     LetStmt ''i.old_max$2'' (Add (i32 0) (i32 100))
       (LetStmt ''i.new_min$0''
          (clamp (Min' (var32 ''n'') (var32 ''m'')) (i32 0) (var32 ''i.old_max$2''))
          (LetStmt ''i.new_max$1'' (Add (i32 0) (i32 100))
             (narrowed ''i.old_max$5'' ''i.new_min$3'' ''i.new_max$4''
                (Add (var32 ''i.new_min$0'')
                   (Sub (var32 ''i.new_max$1'') (var32 ''i.new_min$0'')))
                (clamp (Min' (var32 ''n'') (var32 ''m''))
                   (var32 ''i.new_min$0'') (var32 ''i.old_max$5''))
                (Add (var32 ''i.new_min$0'')
                   (Sub (var32 ''i.new_max$1'') (var32 ''i.new_min$0'')))
                ''i'' Serial Host guarded_either)))"

definition two_loops :: stmt where
  "two_loops =
     Block (For ''i'' (i32 0) (i32 10) Serial Host dead_store)
       (For ''j'' (i32 0) (i32 10) Parallel Host (Store ''a'' (i32 1) (var32 ''j'')))"

definition two_loops_trimmed :: stmt where
  "two_loops_trimmed =
     Block (Evaluate (i32 0))
       (For ''j'' (i32 0) (i32 10) Parallel Host (Store ''a'' (i32 1) (var32 ''j'')))"

text \<open>
  The narrowed loops of \<open>for i in [0, 0 + -5): if (i >= 2) image_store()\<close> and of
  \<open>for i in [2147483647, 2147483647 + 1): if (i >= 2) image_store()\<close>.
\<close>

definition narrowed_negative_extent :: stmt where
  "narrowed_negative_extent =
     narrowed ''i.old_max$2'' ''i.new_min$0'' ''i.new_max$1''
       (Add (i32 0) (i32 (- 5)))
       (clamp (i32 2) (i32 0) (var32 ''i.old_max$2''))
       (Add (i32 0) (i32 (- 5)))
       ''i'' Serial Host
       (IfThenElse const_true (Evaluate (Call (Int_t 32) image_store [] Intrinsic)) None)"

definition narrowed_overflow :: stmt where
  "narrowed_overflow =
     narrowed ''i.old_max$2'' ''i.new_min$0'' ''i.new_max$1''
       (Add (i32 2147483647) (i32 1))
       (clamp (i32 2) (i32 2147483647) (var32 ''i.old_max$2''))
       (Add (i32 2147483647) (i32 1))
       ''i'' Serial Host
       (IfThenElse const_true (Evaluate (Call (Int_t 32) image_store [] Intrinsic)) None)"

text \<open>The narrowed loop of \<open>for i in [0, 10): if (i <= a[0]) a[0] = a[0] + 1\<close>.\<close>

definition narrowed_counting_store :: stmt where
  "narrowed_counting_store =
     narrowed ''i.old_max$2'' ''i.new_min$0'' ''i.new_max$1''
       (Add (i32 0) (i32 10))
       (i32 0)
       (clamp (Add (Load (Int_t 32) ''a'' (i32 0)) (i32 1))
          (var32 ''i.new_min$0'') (var32 ''i.old_max$2''))
       ''i'' Serial Host counting_store"

section \<open>The claims\<close>

subsection \<open>Runs of the pass on the example statements\<close>

lemma dead_store_trim: "TrimNoOps_mutate ref_ext dead_store 0 = Some (dead_store, 0)"
  by (simp add: dead_store_def)

lemma dead_store_condition: "IsNoOp_stmt ref_ext dead_store const_true = Some const_true"
  by code_simp

lemma const_true_tested:
  "is_one (simplify ref_ext (simplify ref_ext
     (common_subexpression_elimination ref_ext const_true)))"
  by code_simp

lemma guarded_store_condition:
  "IsNoOp_stmt ref_ext guarded_store const_true =
     Some (Or (Not' (GE (var32 ''i'') (var32 ''n'')))
              (EQ (Load (Int_t 32) ''a'' (var32 ''i'')) (i32 1)))"
  by code_simp

text \<open>
  The stack entry of a one-point interval: given as two nodes it is relaxed over, given as
  one node it is substituted through a let, as the entry of a let is. The recording run
  shows which collaborators were applied.
\<close>

lemma prove_loops_two_nodes:
  "prove_loops recording_ext [(''x'', Interval (i32 3) (i32 3))] (LE (var32 ''x'') (i32 5)) =
     Call (Bool_t 1) ''simplify'' [LE (var32 ''x'') (i32 5)] Extern"
  by code_simp

lemma prove_loops_one_node:
  "prove_loops recording_ext [(''x'', Interval_point (i32 3))] (LE (var32 ''x'') (i32 5)) =
     Call (Bool_t 1) ''simplify''
       [Call (Bool_t 1) ''common_subexpression_elimination''
          [Let' ''x'' (i32 3) (LE (var32 ''x'') (i32 5))] Extern] Extern"
  by code_simp

subsection \<open>The loop trimmer removes a loop whose body is a no-op\<close>

text \<open>
  Claim C2. For every for-loop the loop trimmer processes: when the no-op condition of its
  rewritten body, simplified, is the constant true, the whole loop is replaced by the
  statement that evaluates the constant 0. (The run on the body and the inference
  succeed by assumption; the name supply is the one the run on the body left.)
\<close>

theorem trim_for_removed:
  assumes "TrimNoOps_mutate ext body0 u = Some (body, u')"
    and "IsNoOp_stmt ext body const_true = Some c"
    and "is_one (simplify ext (simplify ext (common_subexpression_elimination ext c)))"
  shows "TrimNoOps_mutate ext (For name mn extent ft da body0) u =
           Some (Evaluate (IntImm (Int_t 32) 0), u')"
  using assms by simp

text \<open>The loop \<open>for i in [0, 10): a[i] = a[i]\<close> of the specification is removed.\<close>

theorem trim_for_removed_witness:
  "TrimNoOps_mutate ref_ext dead_store 0 = Some (dead_store, 0) \<and>
   IsNoOp_stmt ref_ext dead_store const_true = Some const_true \<and>
   is_one (simplify ref_ext (simplify ref_ext
     (common_subexpression_elimination ref_ext const_true))) \<and>
   TrimNoOps_mutate ref_ext (For ''i'' (i32 0) (i32 10) Serial Host dead_store) 0 =
     Some (Evaluate (IntImm (Int_t 32) 0), 0)"
  using dead_store_trim dead_store_condition const_true_tested
    trim_for_removed [OF dead_store_trim dead_store_condition const_true_tested]
  by blast

subsection \<open>The no-op condition of a for-loop\<close>



subsection \<open>Minimum and maximum are resolved for wide signed integers only\<close>

text \<open>
  Claim C6. The bounds-aware simplifier tries to resolve a minimum or a maximum only when
  the type of the node is a signed integer type of at least 32 bits: for a node of any
  other type (not a signed integer, or narrower than 32 bits) the result is the node
  rebuilt from its mutated operands, whatever the enclosing loops and whatever the
  collaborators prove.
\<close>

theorem Min_Max_only_wide_int:
  assumes "\<not> is_int (type_of a) \<or> tbits (type_of a) < 32"
  shows "SimplifyUsingBounds_mutate ext cl (Min' a b) =
           Min' (SimplifyUsingBounds_mutate ext cl a) (SimplifyUsingBounds_mutate ext cl b) \<and>
         SimplifyUsingBounds_mutate ext cl (Max' a b) =
           Max' (SimplifyUsingBounds_mutate ext cl a) (SimplifyUsingBounds_mutate ext cl b)"
  using assms by auto

text \<open>
  Inside a loop over \<open>[0, 5]\<close>, \<open>min(x, 7)\<close> and \<open>max(x, 7)\<close> of 16 bits stay as
  they are, while \<open>min(x, 7)\<close> of 32 bits becomes \<open>x\<close>.
\<close>

theorem Min_Max_only_wide_int_witness:
  "tbits (type_of (Variable (Int_t 16) ''x'')) < 32 \<and>
   SimplifyUsingBounds_mutate ref_ext [(''x'', Interval (IntImm (Int_t 16) 0) (IntImm (Int_t 16) 5))]
       (Min' (Variable (Int_t 16) ''x'') (IntImm (Int_t 16) 7)) =
     Min' (Variable (Int_t 16) ''x'') (IntImm (Int_t 16) 7) \<and>
   SimplifyUsingBounds_mutate ref_ext [(''x'', Interval (IntImm (Int_t 16) 0) (IntImm (Int_t 16) 5))]
       (Max' (Variable (Int_t 16) ''x'') (IntImm (Int_t 16) 7)) =
     Max' (Variable (Int_t 16) ''x'') (IntImm (Int_t 16) 7) \<and>
   SimplifyUsingBounds_mutate ref_ext [(''x'', Interval (i32 0) (i32 5))]
       (Min' (var32 ''x'') (i32 7)) = var32 ''x''"
proof -
  have h: "\<not> is_int (type_of (Variable (Int_t 16) ''x''))
           \<or> tbits (type_of (Variable (Int_t 16) ''x'')) < 32"
    by (simp add: Int_t_def)
  have w: "SimplifyUsingBounds_mutate ref_ext [(''x'', Interval (i32 0) (i32 5))]
       (Min' (var32 ''x'') (i32 7)) = var32 ''x''"
    by code_simp
  from Min_Max_only_wide_int [OF h, of ref_ext
      "[(''x'', Interval (IntImm (Int_t 16) 0) (IntImm (Int_t 16) 5))]" "IntImm (Int_t 16) 7"] w
  show ?thesis by (simp add: Int_t_def)
qed


subsection \<open>What the loop trimmer tests\<close>

lemma trim_for_outcomes:
  assumes b: "TrimNoOps_mutate ext body0 u = Some (body, u1)"
    and c: "IsNoOp_stmt ext body const_true = Some c"
    and t: "t = simplify ext (simplify ext (common_subexpression_elimination ext c))"
  shows "is_one t \<Longrightarrow>
           TrimNoOps_mutate ext (For name mn extent ft da body0) u =
             Some (Evaluate (IntImm (Int_t 32) 0), u1)"
    and "\<not> is_one t \<Longrightarrow> is_zero t \<Longrightarrow>
           TrimNoOps_mutate ext (For name mn extent ft da body0) u =
             Some (For name mn extent ft da body, u1)"
    and "\<not> is_one t \<Longrightarrow> \<not> is_zero t \<Longrightarrow>
         interval_is_everything (solve_for_outer_interval ext (Not' t) name) \<Longrightarrow>
           TrimNoOps_mutate ext (For name mn extent ft da body0) u =
             Some (For name mn extent ft da body, u1)"
  using b c t by (simp_all add: Let_def)

lemma image_store_trim:
  "TrimNoOps_mutate ref_ext (Evaluate (Call (Int_t 32) image_store [] Intrinsic)) 0 =
     Some (Evaluate (Call (Int_t 32) image_store [] Intrinsic), 0)"
  by simp

lemma image_store_condition:
  "IsNoOp_stmt ref_ext (Evaluate (Call (Int_t 32) image_store [] Intrinsic)) const_true =
     Some const_false"
  by code_simp

lemma const_false_tested:
  "const_false = simplify ref_ext (simplify ref_ext
     (common_subexpression_elimination ref_ext const_false))"
  by code_simp

lemma recorded_run:
  "TrimNoOps_mutate recording_ext (For ''i'' (i32 0) (i32 10) Serial Host (Evaluate (i32 0))) 0 =
     Some (recorded_loop
        (simplify recording_ext (simplify recording_ext
           (common_subexpression_elimination recording_ext const_true))), 3)"
  by code_simp

text \<open>
  Claim C4, as the code has it. In the loop trimmer the no-op condition of a loop body is
  simplified twice but common-subexpression-eliminated once,
  \<open>simplify (simplify (cse c))\<close>, before it is tested: the loop is removed when that
  expression is the constant one, and rebuilt with its own bounds when it is the constant
  zero.
\<close>

theorem trim_for_tests_condition:
  assumes "TrimNoOps_mutate ext body0 u = Some (body, u1)"
    and "IsNoOp_stmt ext body const_true = Some c"
    and "t = simplify ext (simplify ext (common_subexpression_elimination ext c))"
  shows "(is_one t \<longrightarrow>
            TrimNoOps_mutate ext (For name mn extent ft da body0) u =
              Some (Evaluate (IntImm (Int_t 32) 0), u1)) \<and>
         (\<not> is_one t \<and> is_zero t \<longrightarrow>
            TrimNoOps_mutate ext (For name mn extent ft da body0) u =
              Some (For name mn extent ft da body, u1))"
  using trim_for_outcomes(1,2) [OF assms] by blast

text \<open>A loop around \<open>image_store\<close> has the condition false and is rebuilt as it is.\<close>

theorem trim_for_tests_condition_witness:
  "TrimNoOps_mutate ref_ext (Evaluate (Call (Int_t 32) image_store [] Intrinsic)) 0 =
     Some (Evaluate (Call (Int_t 32) image_store [] Intrinsic), 0) \<and>
   IsNoOp_stmt ref_ext (Evaluate (Call (Int_t 32) image_store [] Intrinsic)) const_true =
     Some const_false \<and>
   const_false = simplify ref_ext (simplify ref_ext
     (common_subexpression_elimination ref_ext const_false)) \<and>
   \<not> is_one const_false \<and> is_zero const_false \<and>
   TrimNoOps_mutate ref_ext
       (For ''i'' (i32 0) (i32 10) Serial Host
          (Evaluate (Call (Int_t 32) image_store [] Intrinsic))) 0 =
     Some (For ''i'' (i32 0) (i32 10) Serial Host
          (Evaluate (Call (Int_t 32) image_store [] Intrinsic)), 0)"
proof -
  have z: "\<not> is_one const_false \<and> is_zero const_false"
    by code_simp
  from z image_store_trim image_store_condition const_false_tested
    trim_for_tests_condition [OF image_store_trim image_store_condition const_false_tested,
      of "''i''" "i32 0" "i32 10" Serial Host]
  show ?thesis by blast
qed

text \<open>
  Claim C4 as stated fails: with the recording collaborators, the loop
  \<open>for i in [0, 10): evaluate(0)\<close> comes back with the tested condition in its new lower
  bound, and that condition is \<open>simplify (simplify (cse true))\<close>, not the
  \<open>simplify (cse (simplify (cse true)))\<close> of the specification.
\<close>

theorem cse_applied_once_counterexample:
  "TrimNoOps_mutate recording_ext (For ''i'' (i32 0) (i32 10) Serial Host (Evaluate (i32 0))) 0 =
     Some (recorded_loop
        (simplify recording_ext (simplify recording_ext
           (common_subexpression_elimination recording_ext const_true))), 3) \<and>
   TrimNoOps_mutate recording_ext (For ''i'' (i32 0) (i32 10) Serial Host (Evaluate (i32 0))) 0 \<noteq>
     Some (recorded_loop (spec_simplify_and_cse_twice recording_ext const_true), 3)"
proof -
  have "recorded_loop
        (simplify recording_ext (simplify recording_ext
           (common_subexpression_elimination recording_ext const_true)))
      \<noteq> recorded_loop (spec_simplify_and_cse_twice recording_ext const_true)"
    by code_simp
  with recorded_run show ?thesis by simp
qed

subsection \<open>A loop is left alone when nothing is solved\<close>

lemma plain_store_trim:
  "TrimNoOps_mutate ref_ext (Store ''a'' (i32 1) (var32 ''i'')) 0 =
     Some (Store ''a'' (i32 1) (var32 ''i''), 0)"
  by simp

lemma plain_store_condition:
  "IsNoOp_stmt ref_ext (Store ''a'' (i32 1) (var32 ''i'')) const_true =
     Some (EQ (Load (Int_t 32) ''a'' (var32 ''i'')) (i32 1))"
  by code_simp

lemma plain_store_tested:
  "EQ (Load (Int_t 32) ''a'' (var32 ''i'')) (i32 1) =
     simplify ref_ext (simplify ref_ext (common_subexpression_elimination ref_ext
       (EQ (Load (Int_t 32) ''a'' (var32 ''i'')) (i32 1))))"
  by code_simp

lemma plain_store_undecided:
  "\<not> is_one (EQ (Load (Int_t 32) ''a'' (var32 ''i'')) (i32 1))"
  "\<not> is_zero (EQ (Load (Int_t 32) ''a'' (var32 ''i'')) (i32 1))"
  "interval_is_everything (solve_for_outer_interval ref_ext
     (Not' (EQ (Load (Int_t 32) ''a'' (var32 ''i'')) (i32 1))) ''i'')"
  by code_simp+

lemma guarded_le20_run:
  "TrimNoOps_mutate ref_ext (For ''i'' (i32 0) (i32 10) Serial Host guarded_le20) 0 =
     Some (narrowed ''i.old_max$2'' ''i.new_min$0'' ''i.new_max$1''
             (Add (i32 0) (i32 10)) (i32 0)
             (clamp (Add (i32 20) (i32 1)) (var32 ''i.new_min$0'') (var32 ''i.old_max$2''))
             ''i'' Serial Host
             (IfThenElse const_true (Evaluate (Call (Int_t 32) image_store [] Intrinsic)) None),
           3)"
  by code_simp

text \<open>
  Claim C5, as the code has it. When the tested no-op condition is neither the constant
  one nor the constant zero and the interval solved for its negation is unbounded on both
  sides (\<open>interval_is_everything\<close>: the solver proved nothing), the loop is rebuilt
  with its own bounds around the rewritten body: no narrowing, no new let.
\<close>

theorem trim_for_unchanged_when_everything:
  assumes "TrimNoOps_mutate ext body0 u = Some (body, u1)"
    and "IsNoOp_stmt ext body const_true = Some c"
    and "t = simplify ext (simplify ext (common_subexpression_elimination ext c))"
    and "\<not> is_one t" and "\<not> is_zero t"
    and "interval_is_everything (solve_for_outer_interval ext (Not' t) name)"
  shows "TrimNoOps_mutate ext (For name mn extent ft da body0) u =
           Some (For name mn extent ft da body, u1)"
  using assms by (simp add: Let_def)

text \<open>The loop \<open>for i in [0, 10): a[i] = 1\<close>: nothing is solved, the loop stays.\<close>

theorem trim_for_unchanged_when_everything_witness:
  "TrimNoOps_mutate ref_ext (Store ''a'' (i32 1) (var32 ''i'')) 0 =
     Some (Store ''a'' (i32 1) (var32 ''i''), 0) \<and>
   IsNoOp_stmt ref_ext (Store ''a'' (i32 1) (var32 ''i'')) const_true =
     Some (EQ (Load (Int_t 32) ''a'' (var32 ''i'')) (i32 1)) \<and>
   interval_is_everything (solve_for_outer_interval ref_ext
     (Not' (EQ (Load (Int_t 32) ''a'' (var32 ''i'')) (i32 1))) ''i'') \<and>
   TrimNoOps_mutate ref_ext
       (For ''i'' (i32 0) (i32 10) Serial Host (Store ''a'' (i32 1) (var32 ''i''))) 0 =
     Some (For ''i'' (i32 0) (i32 10) Serial Host (Store ''a'' (i32 1) (var32 ''i'')), 0)"
  using plain_store_trim plain_store_condition plain_store_undecided(3)
    trim_for_unchanged_when_everything [OF plain_store_trim plain_store_condition
      plain_store_tested plain_store_undecided, of "i32 0" "i32 10" Serial Host]
  by blast

text \<open>
  Claim C5 as stated fails: for \<open>for i in [0, 10): if (i <= 20) image_store()\<close> the
  solved interval \<open>(-inf, 20]\<close> covers the whole range \<open>[0, 9]\<close> of the loop, yet
  it is not unbounded on both sides, and the trimmer takes the narrowing outcome: it
  emits the three lets and a loop over the new bounds.
\<close>

theorem covering_interval_counterexample:
  "IsNoOp_stmt ref_ext guarded_le20 const_true = Some (Not' (LE (var32 ''i'') (i32 20))) \<and>
   simplify ref_ext (simplify ref_ext (common_subexpression_elimination ref_ext
      (Not' (LE (var32 ''i'') (i32 20))))) = Not' (LE (var32 ''i'') (i32 20)) \<and>
   \<not> is_one (Not' (LE (var32 ''i'') (i32 20))) \<and>
   \<not> is_zero (Not' (LE (var32 ''i'') (i32 20))) \<and>
   solve_for_outer_interval ref_ext (Not' (Not' (LE (var32 ''i'') (i32 20)))) ''i'' =
     \<lparr>i_min = None, i_max = Some (i32 20), i_same = False\<rparr> \<and>
   spec_covers_range \<lparr>i_min = None, i_max = Some (i32 20), i_same = False\<rparr> (i32 0) (i32 10) \<and>
   TrimNoOps_mutate ref_ext (For ''i'' (i32 0) (i32 10) Serial Host guarded_le20) 0 =
     Some (narrowed ''i.old_max$2'' ''i.new_min$0'' ''i.new_max$1''
             (Add (i32 0) (i32 10)) (i32 0)
             (clamp (Add (i32 20) (i32 1)) (var32 ''i.new_min$0'') (var32 ''i.old_max$2''))
             ''i'' Serial Host
             (IfThenElse const_true (Evaluate (Call (Int_t 32) image_store [] Intrinsic)) None),
           3) \<and>
   TrimNoOps_mutate ref_ext (For ''i'' (i32 0) (i32 10) Serial Host guarded_le20) 0 \<noteq>
     Some (For ''i'' (i32 0) (i32 10) Serial Host guarded_le20, 0)"
proof -
  have "IsNoOp_stmt ref_ext guarded_le20 const_true = Some (Not' (LE (var32 ''i'') (i32 20)))"
    by code_simp
  moreover have "simplify ref_ext (simplify ref_ext (common_subexpression_elimination ref_ext
      (Not' (LE (var32 ''i'') (i32 20))))) = Not' (LE (var32 ''i'') (i32 20))"
    by code_simp
  moreover have "\<not> is_one (Not' (LE (var32 ''i'') (i32 20)))"
    "\<not> is_zero (Not' (LE (var32 ''i'') (i32 20)))"
    by simp_all
  moreover have "solve_for_outer_interval ref_ext (Not' (Not' (LE (var32 ''i'') (i32 20)))) ''i'' =
     \<lparr>i_min = None, i_max = Some (i32 20), i_same = False\<rparr>"
    by code_simp
  moreover have "spec_covers_range \<lparr>i_min = None, i_max = Some (i32 20), i_same = False\<rparr> (i32 0) (i32 10)"
    by code_simp
  moreover have "TrimNoOps_mutate ref_ext (For ''i'' (i32 0) (i32 10) Serial Host guarded_le20) 0 \<noteq>
     Some (For ''i'' (i32 0) (i32 10) Serial Host guarded_le20, 0)"
    unfolding guarded_le20_run by (simp add: narrowed_def)
  ultimately show ?thesis using guarded_le20_run by blast
qed

subsection \<open>A loop that is kept keeps its name and its tags\<close>

lemma guarded_store_run:
  "TrimNoOps_mutate ref_ext (For ''i'' (i32 0) (i32 100) Serial Host guarded_store) 0 =
     Some (narrowed_guarded_store, 3)"
  by code_simp

text \<open>
  Claim C9. Whatever the loop trimmer returns for a for-loop is the no-effect statement
  (the loop was removed), or a for-loop with the same variable, bounds, loop kind and
  device tag around a rewritten body, or what the statement simplifier makes of three
  lets around a for-loop with the same variable, loop kind and device tag (the narrowing
  outcome, where minimum, extent and body may differ).
\<close>

theorem trim_for_keeps_tags:
  assumes "TrimNoOps_mutate ext (For name mn extent ft da body0) u = Some (s, u')"
  shows "s = Evaluate (IntImm (Int_t 32) 0) \<or>
         (\<exists>body. s = For name mn extent ft da body) \<or>
         (\<exists>a va b vb c vc mn' extent' body.
            s = simplify_stmt ext
                  (LetStmt a va (LetStmt b vb (LetStmt c vc (For name mn' extent' ft da body)))))"
proof -
  from assms obtain body u1 c where
    b: "TrimNoOps_mutate ext body0 u = Some (body, u1)" and
    c: "IsNoOp_stmt ext body const_true = Some c"
    by (auto split: Option.bind_splits)
  define t where "t = simplify ext (simplify ext (common_subexpression_elimination ext c))"
  define i where "i = solve_for_outer_interval ext (Not' t) name"
  consider "is_one t" | "\<not> is_one t" "is_zero t"
    | "\<not> is_one t" "\<not> is_zero t" "interval_is_everything i"
    | "\<not> is_one t" "\<not> is_zero t" "\<not> interval_is_everything i"
    by blast
  then show ?thesis
  proof cases
    case 1
    with assms b c show ?thesis by (simp add: t_def)
  next
    case 2
    with assms b c show ?thesis by (auto simp: t_def)
  next
    case 3
    with assms b c show ?thesis by (auto simp: t_def i_def Let_def)
  next
    case 4
    with assms b c have "\<exists>a va b vb c vc mn' extent' body.
            s = simplify_stmt ext
                  (LetStmt a va (LetStmt b vb (LetStmt c vc (For name mn' extent' ft da body))))"
      by (simp add: t_def i_def Let_def split: prod.splits) blast
    then show ?thesis by blast
  qed
qed

text \<open>The narrowed loop of \<open>for i in [0, 100): if (i >= n) a[i] = 1\<close>.\<close>

theorem trim_for_keeps_tags_witness:
  "TrimNoOps_mutate ref_ext (For ''i'' (i32 0) (i32 100) Serial Host guarded_store) 0 =
     Some (narrowed_guarded_store, 3) \<and>
   (narrowed_guarded_store = Evaluate (IntImm (Int_t 32) 0) \<or>
    (\<exists>body. narrowed_guarded_store = For ''i'' (i32 0) (i32 100) Serial Host body) \<or>
    (\<exists>a va b vb c vc mn' extent' body.
        narrowed_guarded_store = simplify_stmt ref_ext
          (LetStmt a va (LetStmt b vb (LetStmt c vc (For ''i'' mn' extent' Serial Host body))))))"
  using guarded_store_run trim_for_keeps_tags [OF guarded_store_run] by blast

subsection \<open>The no-op condition is well scoped\<close>


lemma free_vars_const [simp]:
  "free_vars const_true = {}" "free_vars const_false = {}"
  by (simp_all add: const_true_def const_false_def make_one_def make_zero_def make_const_def
      Bool_t_def UInt_t_def)

lemma free_vars_make_const [simp]: "free_vars (make_const t v) = {}"
  by (simp add: make_const_def Let_def)

lemma free_vars_make_and: "free_vars (make_and a b) \<subseteq> free_vars a \<union> free_vars b"
  by (auto simp: make_and_def)

lemma free_vars_make_or: "free_vars (make_or a b) \<subseteq> free_vars a \<union> free_vars b"
  by (auto simp: make_or_def)

lemma free_vars_uses_var:
  "x \<in> free_vars e \<Longrightarrow> expr_uses_var e x"
  "x \<in> free_vars_list es \<Longrightarrow> exprs_use_var es x"
  by (induction e and es rule: free_vars_free_vars_list.induct) auto

lemma free_vars_list_member: "a \<in> set es \<Longrightarrow> free_vars a \<subseteq> free_vars_list es"
  by (induction es) auto

lemma StripIdentities_free_vars:
  "StripIdentities_mutate e = Some e' \<Longrightarrow> free_vars e' \<subseteq> free_vars e"
  "StripIdentities_mutate_list es = Some es' \<Longrightarrow> free_vars_list es' \<subseteq> free_vars_list es"
proof (induction e and es arbitrary: e' and es'
    rule: StripIdentities_mutate_StripIdentities_mutate_list.induct)
  case (24 t n args ct)
  show ?case
  proof (cases "ct = Intrinsic \<and> n = trace_expr")
    case True
    with "24.prems" obtain a0 a1 a2 a3 a4 rest where
      args: "args = a0 # a1 # a2 # a3 # a4 # rest" and r: "StripIdentities_mutate a4 = Some e'"
      by (auto split: list.splits)
    from "24.IH"(1) [OF True, of a0 "a1 # a2 # a3 # a4 # rest" a1 "a2 # a3 # a4 # rest"
        a2 "a3 # a4 # rest" a3 "a4 # rest" a4 rest e'] args r
    show ?thesis by auto
  next
    case False
    note nt = this
    show ?thesis
    proof (cases "ct = Intrinsic \<and> (n = return_second \<or> n = likely)")
      case True
      with nt "24.prems" obtain a rest where
        args: "rev args = a # rest" and r: "StripIdentities_mutate a = Some e'"
        by (auto split: list.splits)
      from args have "a \<in> set args" by (metis list.set_intros(1) set_rev)
      with "24.IH"(2) [OF nt True args r] free_vars_list_member [of a args]
      show ?thesis by auto
    next
      case False
      with nt "24.prems" obtain args' where
        r: "StripIdentities_mutate_list args = Some args'" and e': "e' = Call t n args' ct"
        by auto
      from "24.IH"(3) [OF nt False r] e' show ?thesis by simp
    qed
  qed
qed (force split: Option.bind_splits)+


lemma scoping_collaboratorsD:
  assumes "scoping_collaborators ext"
  shows "free_vars (simplify ext e) \<subseteq> free_vars e"
    and "free_vars (common_subexpression_elimination ext e) \<subseteq> free_vars e"
    and "free_vars (and_condition_over_domain ext e sc)
           \<subseteq> (free_vars e - fst ` set sc) \<union> scope_bound_vars sc"
  using assms unfolding scoping_collaborators_def by blast+

lemma free_vars_let_wrap:
  assumes "free_vars c \<subseteq> A \<union> free_vars v \<union> B"
  shows "free_vars (if expr_uses_var c x then Let' x v c else c)
           \<subseteq> A \<union> (free_vars v \<union> (B - {x}))"
proof (cases "expr_uses_var c x")
  case True
  with assms show ?thesis by auto
next
  case False
  then have "x \<notin> free_vars c" using free_vars_uses_var(1) by blast
  with False assms show ?thesis by auto
qed

lemma IsNoOp_free_vars:
  "scoping_collaborators ext \<Longrightarrow> IsNoOp_expr ext e c = Some c'
     \<Longrightarrow> free_vars c' \<subseteq> free_vars c \<union> free_vars e"
  "scoping_collaborators ext \<Longrightarrow> IsNoOp_exprs ext es c = Some c'
     \<Longrightarrow> free_vars c' \<subseteq> free_vars c \<union> free_vars_list es"
  "scoping_collaborators ext \<Longrightarrow> IsNoOp_stmt ext s c = Some c'
     \<Longrightarrow> free_vars c' \<subseteq> free_vars c \<union> free_vars_stmt s"
proof (induction ext e c and ext es c and ext s c arbitrary: c' and c' and c'
    rule: IsNoOp_expr_IsNoOp_exprs_IsNoOp_stmt.induct)
  case (25 ext x v b condition)
  from "25.prems"(2) obtain c1 c2 where
    c1: "IsNoOp_expr ext v condition = Some c1" and
    c2: "IsNoOp_expr ext b c1 = Some c2" and
    c': "c' = (if expr_uses_var c2 x then Let' x v c2 else c2)"
    by (auto split: Option.bind_splits)
  from "25.IH"(1) [OF "25.prems"(1) c1] "25.IH"(2) [OF c1 "25.prems"(1) c2]
  have "free_vars c2 \<subseteq> free_vars condition \<union> free_vars v \<union> free_vars b" by blast
  from free_vars_let_wrap [OF this, of x] c' show ?case by simp
next
  case (28 ext x v b condition)
  from "28.prems"(2) obtain c1 c2 where
    c1: "IsNoOp_expr ext v condition = Some c1" and
    c2: "IsNoOp_stmt ext b c1 = Some c2" and
    c': "c' = (if expr_uses_var c2 x then Let' x v c2 else c2)"
    by (auto split: Option.bind_splits)
  from "28.IH"(1) [OF "28.prems"(1) c1] "28.IH"(2) [OF c1 "28.prems"(1) c2]
  have "free_vars c2 \<subseteq> free_vars condition \<union> free_vars v \<union> free_vars_stmt b" by blast
  from free_vars_let_wrap [OF this, of x] c' show ?case by simp
next
  case (31 ext n mn extent ft da body condition)
  note sc = scoping_collaboratorsD [OF "31.prems"(1)]
  from "31.prems"(2) obtain bc where
    bc: "IsNoOp_stmt ext body const_true = Some bc" and
    c': "c' = make_and condition
          (make_or
            (and_condition_over_domain ext
               (simplify ext (common_subexpression_elimination ext bc))
               [(n, Interval mn (Sub (Add mn extent) (make_const (type_of mn) 1)))])
            (simplify ext (LE extent (IntImm (Int_t 32) 0))))"
    by (auto split: Option.bind_splits simp: Let_def)
  from "31.IH" [OF "31.prems"(1) bc] have b: "free_vars bc \<subseteq> free_vars_stmt body" by simp
  have "free_vars (simplify ext (common_subexpression_elimination ext bc)) \<subseteq> free_vars bc"
    using sc(1) sc(2) by blast
  with b have r: "free_vars (and_condition_over_domain ext
               (simplify ext (common_subexpression_elimination ext bc))
               [(n, Interval mn (Sub (Add mn extent) (make_const (type_of mn) 1)))])
      \<subseteq> (free_vars_stmt body - {n}) \<union> free_vars mn \<union> free_vars extent"
    using sc(3) [of "simplify ext (common_subexpression_elimination ext bc)"
        "[(n, Interval mn (Sub (Add mn extent) (make_const (type_of mn) 1)))]"]
    by (auto simp: scope_bound_vars_def Interval_def)
  have e: "free_vars (simplify ext (LE extent (IntImm (Int_t 32) 0))) \<subseteq> free_vars extent"
    using sc(1) [of "LE extent (IntImm (Int_t 32) 0)"] by simp
  show ?case unfolding c'
    using free_vars_make_and [of condition] free_vars_make_or r e
    by (simp add: subset_iff) blast
next
  case (32 ext n v i condition)
  note sc = scoping_collaboratorsD [OF "32.prems"(1)]
  show ?case
  proof (cases "is_handle (type_of v)")
    case True
    with "32.prems"(2) show ?thesis by simp
  next
    case False
    with "32.prems"(2) obtain e where
      e: "StripIdentities_mutate (EQ (Load (type_of v) n i) v) = Some e" and
      c': "c' = make_and condition (and_condition_over_domain ext e [])"
      by (auto split: Option.bind_splits simp: Let_def)
    from StripIdentities_free_vars(1) [OF e]
    have "free_vars e \<subseteq> free_vars v \<union> free_vars i" by auto
    with sc(3) [of e "[]"] have "free_vars (and_condition_over_domain ext e [])
        \<subseteq> free_vars v \<union> free_vars i"
      by (auto simp: scope_bound_vars_def)
    with free_vars_make_and [of condition "and_condition_over_domain ext e []"] c'
    show ?thesis by auto
  qed
next
  case (36 ext c then_case else_case condition)
  from "36.prems"(2) obtain tc where
    tc: "IsNoOp_stmt ext then_case const_true = Some tc"
    by (auto split: Option.bind_splits)
  from "36.IH"(1) [OF "36.prems"(1) tc] have t: "free_vars tc \<subseteq> free_vars_stmt then_case"
    by simp
  define total where "total = make_and condition (make_or (Not' c) tc)"
  have tot: "free_vars total \<subseteq> free_vars condition \<union> free_vars c \<union> free_vars_stmt then_case"
    unfolding total_def
    using free_vars_make_and [of condition "make_or (Not' c) tc"]
      free_vars_make_or [of "Not' c" tc] t
    by (simp add: subset_iff) blast
  show ?case
  proof (cases else_case)
    case None
    with "36.prems"(2) tc have "c' = total" by (simp add: total_def Let_def)
    with tot None show ?thesis by auto
  next
    case (Some e)
    with "36.prems"(2) tc obtain ec where
      ec: "IsNoOp_stmt ext e const_true = Some ec" and
      c': "c' = make_and total (make_or c ec)"
      by (auto split: Option.bind_splits simp: total_def Let_def)
    from "36.IH"(2) [OF tc total_def Some "36.prems"(1) ec]
    have "free_vars ec \<subseteq> free_vars_stmt e" by simp
    with tot free_vars_make_and [of total "make_or c ec"] free_vars_make_or [of c ec]
    show ?thesis unfolding c' using Some by (simp add: subset_iff) blast
  qed
qed (force split: Option.bind_splits option.splits if_splits)+


lemma as_variable_Some: "as_variable a = Some x \<Longrightarrow> \<exists>t. a = Variable t x"
  by (cases a) auto

lemma ref_simplify_free_vars: "free_vars (ref_simplify e) \<subseteq> free_vars e"
  by (cases e rule: ref_simplify.cases) (auto split: option.splits)

lemma scope_uses_free_vars:
  "\<not> scope_uses sc e \<Longrightarrow> free_vars e \<subseteq> free_vars e - fst ` set sc"
  using free_vars_uses_var(1)
  by (fastforce simp: scope_uses_def list_ex_iff)

lemma ref_relax_bound_free_vars:
  assumes "ref_relax_bound c a e sc = Some r"
  shows "free_vars r \<subseteq> (free_vars e - fst ` set sc) \<union> scope_bound_vars sc"
proof -
  from assms obtain x y i where
    a: "as_variable a = Some x" and sc: "sc = [(y, i)]" and xy: "x = y"
    and nu: "\<not> expr_uses_var e x"
    by (auto simp: ref_relax_bound_def split: option.splits list.splits if_splits prod.splits)
  from nu have e: "free_vars e \<subseteq> free_vars e - fst ` set sc"
    using free_vars_uses_var(1) by (auto simp: sc xy)
  from assms a sc xy nu consider
    lo where "i_min i = Some lo" "r = ref_simplify (GE lo e)"
    | hi where "i_max i = Some hi" "r = ref_simplify (LE hi e)"
    by (cases c) (auto simp: ref_relax_bound_def)
  then show ?thesis
  proof cases
    case 1
    with ref_simplify_free_vars [of "GE lo e"] e show ?thesis
      by (auto simp: scope_bound_vars_def sc)
  next
    case 2
    with ref_simplify_free_vars [of "LE hi e"] e show ?thesis
      by (auto simp: scope_bound_vars_def sc)
  qed
qed

lemma ref_relax_free_vars:
  "free_vars (ref_relax e sc) \<subseteq> (free_vars e - fst ` set sc) \<union> scope_bound_vars sc"
proof (cases e rule: ref_simplify.cases)
  case (2 a b)
  show ?thesis
  proof (cases "scope_uses sc e")
    case False
    with scope_uses_free_vars [OF False] 2 show ?thesis by auto
  next
    case True
    with 2 ref_relax_bound_free_vars [of e a b sc] show ?thesis
      by (auto split: option.splits)
  qed
next
  case (3 a b)
  show ?thesis
  proof (cases "scope_uses sc e")
    case False
    with scope_uses_free_vars [OF False] 3 show ?thesis by auto
  next
    case True
    with 3 ref_relax_bound_free_vars [of e a b sc] show ?thesis
      by (auto split: option.splits)
  qed
qed (use scope_uses_free_vars [of sc e] in \<open>auto split: if_splits\<close>)

lemma ref_ext_scoping: "scoping_collaborators ref_ext"
  unfolding scoping_collaborators_def
proof (intro conjI allI)
  fix e sc
  show "free_vars (simplify ref_ext e) \<subseteq> free_vars e"
    by (simp add: ref_ext_def ref_simplify_free_vars)
  show "free_vars (common_subexpression_elimination ref_ext e) \<subseteq> free_vars e"
    by (simp add: ref_ext_def)
  have "free_vars (ref_relax (ref_simplify e) sc)
          \<subseteq> (free_vars (ref_simplify e) - fst ` set sc) \<union> scope_bound_vars sc"
    by (rule ref_relax_free_vars)
  with ref_simplify_free_vars [of e]
  show "free_vars (and_condition_over_domain ref_ext e sc)
          \<subseteq> (free_vars e - fst ` set sc) \<union> scope_bound_vars sc"
    by (auto simp: ref_ext_def ref_and_condition_over_domain_def)
qed

text \<open>
  Claim C7. With collaborators that respect scoping, the no-op condition inferred for a
  statement \<open>S\<close> has no free variable but the free variables of \<open>S\<close>: a loop
  variable is eliminated by the relaxation over the loop's domain, and a let-bound name
  that still occurs in the condition is bound again by a let around the condition. So
  where no name is both free and bound in \<open>S\<close>, no variable bound inside \<open>S\<close>
  (a loop variable or a let-bound name) occurs free in the condition.
\<close>

theorem IsNoOp_condition_scoped:
  assumes "scoping_collaborators ext"
    and "IsNoOp_stmt ext s const_true = Some c"
  shows "free_vars c \<subseteq> free_vars_stmt s \<and>
         (free_vars_stmt s \<inter> bound_vars_stmt s = {} \<longrightarrow> free_vars c \<inter> bound_vars_stmt s = {})"
  using IsNoOp_free_vars(3) [OF assms] by auto

lemma let_store_condition:
  "IsNoOp_stmt ref_ext let_store const_true =
     Some (Let' ''x'' (Add (var32 ''n'') (i32 1)) (EQ (Load (Int_t 32) ''a'' (var32 ''x'')) (i32 0)))"
  by code_simp

text \<open>
  The condition of \<open>let x = n + 1 in a[x] = 0\<close> is
  \<open>let x = n + 1 in a[x] == 0\<close>, with the reference collaborators.
\<close>

theorem IsNoOp_condition_scoped_witness:
  "scoping_collaborators ref_ext \<and>
   IsNoOp_stmt ref_ext let_store const_true =
     Some (Let' ''x'' (Add (var32 ''n'') (i32 1))
             (EQ (Load (Int_t 32) ''a'' (var32 ''x'')) (i32 0))) \<and>
   free_vars_stmt let_store = {''n''} \<and>
   bound_vars_stmt let_store = {''x''} \<and>
   free_vars (Let' ''x'' (Add (var32 ''n'') (i32 1))
             (EQ (Load (Int_t 32) ''a'' (var32 ''x'')) (i32 0))) \<inter> bound_vars_stmt let_store = {}"
proof -
  have fv: "free_vars_stmt let_store = {''n''}" "bound_vars_stmt let_store = {''x''}"
    by (auto simp: let_store_def var32_def i32_def)
  with ref_ext_scoping let_store_condition
    IsNoOp_condition_scoped [OF ref_ext_scoping let_store_condition]
  show ?thesis by simp
qed

subsection \<open>Applying the pass twice\<close>


lemma no_narrowing_fixpoint:
  "no_narrowing ext s u \<Longrightarrow> TrimNoOps_mutate ext s u = Some (s', u')
     \<Longrightarrow> u' = u \<and> TrimNoOps_mutate ext s' u = Some (s', u)"
proof (induction ext s u arbitrary: s' u' rule: TrimNoOps_mutate.induct)
  case (1 ext x v b u)
  then show ?case by (auto split: Option.bind_splits)
next
  case (3 ext n produce update consume u)
  from "3.prems"(2) obtain p' u1 where
    p: "TrimNoOps_mutate ext produce u = Some (p', u1)"
    by (auto split: Option.bind_splits)
  from "3.IH"(1) [OF _ p] "3.prems"(1) have p1: "u1 = u" "TrimNoOps_mutate ext p' u = Some (p', u)"
    by auto
  show ?case
  proof (cases update)
    case None
    with "3.prems"(2) p p1 obtain c' u3 where
      c: "TrimNoOps_mutate ext consume u = Some (c', u3)"
      and s': "s' = ProducerConsumer n p' None c'" "u' = u3"
      by (auto split: Option.bind_splits)
    have "(case update of None \<Rightarrow> Some (None, u1)
        | Some s \<Rightarrow> Option.bind (TrimNoOps_mutate ext s u1) (\<lambda>(s', u). Some (Some s', u)))
       = Some (None, u)"
      using None p1 by simp
    from "3.IH"(3) [OF p refl this refl] c "3.prems"(1)
    have "u3 = u" "TrimNoOps_mutate ext c' u = Some (c', u)" by auto
    with p1 s' show ?thesis by simp
  next
    case (Some us)
    with "3.prems"(2) p p1 obtain us' u2 c' u3 where
      us: "TrimNoOps_mutate ext us u = Some (us', u2)" and
      c: "TrimNoOps_mutate ext consume u2 = Some (c', u3)"
      and s': "s' = ProducerConsumer n p' (Some us') c'" "u' = u3"
      by (auto split: Option.bind_splits)
    from "3.IH"(2) [OF p refl Some _ ] us "3.prems"(1) Some p1
    have u2: "u2 = u" "TrimNoOps_mutate ext us' u = Some (us', u)" by auto
    have "(case update of None \<Rightarrow> Some (None, u1)
        | Some s \<Rightarrow> Option.bind (TrimNoOps_mutate ext s u1) (\<lambda>(s', u). Some (Some s', u)))
       = Some (Some us', u)"
      using Some p1 us u2 by simp
    from "3.IH"(3) [OF p refl this refl] c "3.prems"(1) u2
    have "u3 = u" "TrimNoOps_mutate ext c' u = Some (c', u)" by auto
    with p1 u2 s' show ?thesis by simp
  qed
next
  case (4 ext name mn extent ft da body0 u)
  from "4.prems"(2) obtain body u1 c where
    b: "TrimNoOps_mutate ext body0 u = Some (body, u1)" and
    c: "IsNoOp_stmt ext body const_true = Some c"
    by (auto split: Option.bind_splits)
  from "4.IH" [OF _ b] "4.prems"(1) have b1: "u1 = u" "TrimNoOps_mutate ext body u = Some (body, u)"
    by auto
  define t where "t = simplify ext (simplify ext (common_subexpression_elimination ext c))"
  from "4.prems"(1) b c have d: "is_one t \<or> is_zero t
      \<or> interval_is_everything (solve_for_outer_interval ext (Not' t) name)"
    by (simp add: t_def Let_def)
  have same: "TrimNoOps_mutate ext (For name mn extent ft da body0) u =
             Some (For name mn extent ft da body, u1) \<Longrightarrow>
           TrimNoOps_mutate ext (For name mn extent ft da body) u =
             Some (For name mn extent ft da body, u) \<Longrightarrow> ?case"
    using "4.prems"(2) b1 by (simp del: TrimNoOps_mutate.simps)
  from b1 have b2: "TrimNoOps_mutate ext body u = Some (body, u)" by simp
  consider "is_one t" | "\<not> is_one t" "is_zero t"
    | "\<not> is_one t" "\<not> is_zero t"
      "interval_is_everything (solve_for_outer_interval ext (Not' t) name)"
    using d by blast
  then show ?case
  proof cases
    case 1
    from trim_for_outcomes(1) [OF b c t_def 1] "4.prems"(2) b1
    have "s' = Evaluate (IntImm (Int_t 32) 0)" "u' = u"
      by (simp_all del: TrimNoOps_mutate.simps)
    then show ?thesis by simp
  next
    case 2
    from trim_for_outcomes(2) [OF b c t_def 2] trim_for_outcomes(2) [OF b2 c t_def 2]
    show ?thesis by (rule same)
  next
    case 3
    from trim_for_outcomes(3) [OF b c t_def 3] trim_for_outcomes(3) [OF b2 c t_def 3]
    show ?thesis by (rule same)
  qed
next
  case (6 ext n t extents c body u)
  then show ?case by (auto split: Option.bind_splits)
next
  case (8 ext first rest u)
  from "8.prems"(2) obtain f' u1 r' u2 where
    f: "TrimNoOps_mutate ext first u = Some (f', u1)" and
    r: "TrimNoOps_mutate ext rest u1 = Some (r', u2)" and
    s': "s' = Block f' r'" "u' = u2"
    by (auto split: Option.bind_splits)
  from "8.IH"(1) [OF _ f] "8.prems"(1) have f1: "u1 = u" "TrimNoOps_mutate ext f' u = Some (f', u)"
    by auto
  from "8.IH"(2) [OF f refl _ r] "8.prems"(1) f1
  have "u2 = u" "TrimNoOps_mutate ext r' u = Some (r', u)" by auto
  with f1 s' show ?case by simp
next
  case (9 ext c then_case else_case u)
  from "9.prems"(2) obtain t' u1 where
    t: "TrimNoOps_mutate ext then_case u = Some (t', u1)"
    by (auto split: Option.bind_splits)
  from "9.IH"(1) [OF _ t] "9.prems"(1) have t1: "u1 = u" "TrimNoOps_mutate ext t' u = Some (t', u)"
    by auto
  show ?case
  proof (cases else_case)
    case None
    with "9.prems"(2) t t1 show ?thesis by auto
  next
    case (Some e)
    with "9.prems"(2) t obtain e' u2 where
      e: "TrimNoOps_mutate ext e u1 = Some (e', u2)" and
      s': "s' = IfThenElse c t' (Some e')" "u' = u2"
      by (auto split: Option.bind_splits)
    from "9.IH"(2) [OF t refl Some _ e] "9.prems"(1) Some t1
    have "u2 = u" "TrimNoOps_mutate ext e' u = Some (e', u)" by auto
    with t1 s' show ?thesis by simp
  qed
qed auto

text \<open>
  Claim C8, as the code has it. \<open>trim_no_ops\<close> is idempotent on every statement none
  of whose loops it narrows: applied to its own output (with the name supply it left), it
  returns that output again. This holds for all collaborators.
\<close>

theorem trim_no_ops_idempotent_without_narrowing:
  assumes "no_narrowing ext s u" and "trim_no_ops ext s u = Some (s', u')"
  shows "trim_no_ops ext s' u' = Some (s', u')"
  using no_narrowing_fixpoint [of ext s u s' u'] assms by (simp add: trim_no_ops_def)


lemma two_loops_run:
  "no_narrowing ref_ext two_loops 0"
  "trim_no_ops ref_ext two_loops 0 = Some (two_loops_trimmed, 0)"
  by code_simp+

text \<open>A block of a dead loop, which is removed, and a loop that stays.\<close>

theorem trim_no_ops_idempotent_without_narrowing_witness:
  "no_narrowing ref_ext two_loops 0 \<and>
   trim_no_ops ref_ext two_loops 0 = Some (two_loops_trimmed, 0) \<and>
   trim_no_ops ref_ext two_loops_trimmed 0 = Some (two_loops_trimmed, 0)"
  using two_loops_run trim_no_ops_idempotent_without_narrowing [OF two_loops_run]
  by blast

text \<open>
  Claim C8 as stated fails: the loop \<open>for i in [0, 100): if (i >= n || i >= m) a[i] = 1\<close>
  is narrowed to start at \<open>min(n, m)\<close>, clamped. Neither comparison of the guard holds
  over the whole of \<open>[min(n, m), \<infinity>)\<close>, so the body stays as it is; a second application
  meets the same guard, solves the same interval and narrows the emitted loop again, under
  three more lets with fresh names.
\<close>

theorem trim_no_ops_twice_counterexample:
  "trim_no_ops ref_ext (For ''i'' (i32 0) (i32 100) Serial Host guarded_either) 0 =
     Some (narrowed_guarded_either, 3) \<and>
   trim_no_ops ref_ext narrowed_guarded_either 3 = Some (renarrowed_guarded_either, 6) \<and>
   renarrowed_guarded_either \<noteq> narrowed_guarded_either"
proof -
  have "trim_no_ops ref_ext (For ''i'' (i32 0) (i32 100) Serial Host guarded_either) 0 =
     Some (narrowed_guarded_either, 3)"
    by code_simp
  moreover have "trim_no_ops ref_ext narrowed_guarded_either 3 =
     Some (renarrowed_guarded_either, 6)"
    by code_simp
  moreover have "renarrowed_guarded_either \<noteq> narrowed_guarded_either"
    by code_simp
  ultimately show ?thesis by blast
qed

subsection \<open>The narrowed bounds\<close>


lemma evals_map: "evals calls env mem es = map (eval calls env mem) es"
  by (induction es) auto

lemma exprs_use_var_set: "exprs_use_var es x = (\<exists>e \<in> set es. expr_uses_var e x)"
  by (induction es) auto

lemma eval_agree:
  "\<forall>y. expr_uses_var e y \<longrightarrow> env1 y = env2 y
     \<Longrightarrow> eval calls env1 mem e = eval calls env2 mem e"
proof (induction e arbitrary: env1 env2)
  case (Call t n args ct)
  from Call.prems have ag: "\<And>a. a \<in> set args \<Longrightarrow> \<forall>y. expr_uses_var a y \<longrightarrow> env1 y = env2 y"
    by (auto simp: exprs_use_var_set)
  have each: "\<And>a. a \<in> set args \<Longrightarrow> eval calls env1 mem a = eval calls env2 mem a"
    by (rule Call.IH) (auto dest: ag)
  then have all: "evals calls env1 mem args = evals calls env2 mem args"
    by (simp add: evals_map)
  have last: "args \<noteq> [] \<Longrightarrow> eval calls env1 mem (hd (rev args))
      = eval calls env2 mem (hd (rev args))"
    using each [of "hd (rev args)"] by (simp add: hd_rev)
  show ?case
  proof (cases "ct = Intrinsic \<and> n = trace_expr")
    case True
    then show ?thesis using each all by (auto split: list.splits)
  next
    case False
    then show ?thesis using last all by (cases "rev args") auto
  qed
next
  case (Let' y v b)
  from Let'.prems have v: "eval calls env1 mem v = eval calls env2 mem v"
    by (auto intro!: Let'.IH(1))
  have "eval calls (env1(y := eval calls env1 mem v)) mem b
      = eval calls (env2(y := eval calls env2 mem v)) mem b"
    using Let'.prems v by (intro Let'.IH(2)) simp
  then show ?case by simp
next
  case (Select c a b)
  from Select.prems have "eval calls env1 mem c = eval calls env2 mem c"
    "eval calls env1 mem a = eval calls env2 mem a"
    "eval calls env1 mem b = eval calls env2 mem b"
    by (auto intro!: Select.IH)
  then show ?case by simp
next
  case (Cast t e)
  from Cast.prems have "eval calls env1 mem e = eval calls env2 mem e"
    by (auto intro!: Cast.IH)
  then show ?case by simp
next
  case (Not' e)
  from Not'.prems have "eval calls env1 mem e = eval calls env2 mem e"
    by (auto intro!: Not'.IH)
  then show ?case by simp
next
  case (Load t n e)
  from Load.prems have "eval calls env1 mem e = eval calls env2 mem e"
    by (auto intro!: Load.IH)
  then show ?case by simp
next
  case (Broadcast e w)
  from Broadcast.prems have "eval calls env1 mem e = eval calls env2 mem e"
    by (auto intro!: Broadcast.IH)
  then show ?case by simp
next
  case (Add a b)
  from Add.prems have "eval calls env1 mem a = eval calls env2 mem a"
    "eval calls env1 mem b = eval calls env2 mem b"
    by (auto intro!: Add.IH)
  then show ?case by simp
next
  case (Sub a b)
  from Sub.prems have "eval calls env1 mem a = eval calls env2 mem a"
    "eval calls env1 mem b = eval calls env2 mem b"
    by (auto intro!: Sub.IH)
  then show ?case by simp
next
  case (Mul a b)
  from Mul.prems have "eval calls env1 mem a = eval calls env2 mem a"
    "eval calls env1 mem b = eval calls env2 mem b"
    by (auto intro!: Mul.IH)
  then show ?case by simp
next
  case (Div a b)
  from Div.prems have "eval calls env1 mem a = eval calls env2 mem a"
    "eval calls env1 mem b = eval calls env2 mem b"
    by (auto intro!: Div.IH)
  then show ?case by simp
next
  case (Mod a b)
  from Mod.prems have "eval calls env1 mem a = eval calls env2 mem a"
    "eval calls env1 mem b = eval calls env2 mem b"
    by (auto intro!: Mod.IH)
  then show ?case by simp
next
  case (Min' a b)
  from "Min'.prems" have "eval calls env1 mem a = eval calls env2 mem a"
    "eval calls env1 mem b = eval calls env2 mem b"
    by (auto intro!: "Min'.IH")
  then show ?case by simp
next
  case (Max' a b)
  from "Max'.prems" have "eval calls env1 mem a = eval calls env2 mem a"
    "eval calls env1 mem b = eval calls env2 mem b"
    by (auto intro!: "Max'.IH")
  then show ?case by simp
next
  case (EQ a b)
  from EQ.prems have "eval calls env1 mem a = eval calls env2 mem a"
    "eval calls env1 mem b = eval calls env2 mem b"
    by (auto intro!: EQ.IH)
  then show ?case by simp
next
  case (NE a b)
  from NE.prems have "eval calls env1 mem a = eval calls env2 mem a"
    "eval calls env1 mem b = eval calls env2 mem b"
    by (auto intro!: NE.IH)
  then show ?case by simp
next
  case (LT a b)
  from LT.prems have "eval calls env1 mem a = eval calls env2 mem a"
    "eval calls env1 mem b = eval calls env2 mem b"
    by (auto intro!: LT.IH)
  then show ?case by simp
next
  case (LE a b)
  from LE.prems have "eval calls env1 mem a = eval calls env2 mem a"
    "eval calls env1 mem b = eval calls env2 mem b"
    by (auto intro!: LE.IH)
  then show ?case by simp
next
  case (GT a b)
  from GT.prems have "eval calls env1 mem a = eval calls env2 mem a"
    "eval calls env1 mem b = eval calls env2 mem b"
    by (auto intro!: GT.IH)
  then show ?case by simp
next
  case (GE a b)
  from GE.prems have "eval calls env1 mem a = eval calls env2 mem a"
    "eval calls env1 mem b = eval calls env2 mem b"
    by (auto intro!: GE.IH)
  then show ?case by simp
next
  case (And a b)
  from And.prems have "eval calls env1 mem a = eval calls env2 mem a"
    "eval calls env1 mem b = eval calls env2 mem b"
    by (auto intro!: And.IH)
  then show ?case by simp
next
  case (Or a b)
  from Or.prems have "eval calls env1 mem a = eval calls env2 mem a"
    "eval calls env1 mem b = eval calls env2 mem b"
    by (auto intro!: Or.IH)
  then show ?case by simp
qed simp_all

lemma eval_not_used:
  "\<not> expr_uses_var e x \<Longrightarrow> eval calls (env(x := k)) mem e = eval calls env mem e"
  by (rule eval_agree) auto

lemma eval_make_const_one [simp]: "eval calls env mem (make_const t 1) = 1"
  by (simp add: make_const_def Let_def)

lemma wrap_Int32: "- (2 ^ 31) \<le> v \<Longrightarrow> v < 2 ^ 31 \<Longrightarrow> wrap (Int_t 32) v = v"
  by (simp add: wrap_def Int_t_def signed_take_bit_int_eq_self)

lemma narrowing_run:
  assumes "TrimNoOps_mutate ext body0 u = Some (body, u1)"
    and "IsNoOp_stmt ext body const_true = Some c"
    and "t = simplify ext (simplify ext (common_subexpression_elimination ext c))"
    and "\<not> is_one t" and "\<not> is_zero t"
    and "i = solve_for_outer_interval ext (Not' t) name"
    and "\<not> interval_is_everything i"
    and "unique_name ext (name @ ''.new_min'') u1 = (new_min_name, u2)"
    and "unique_name ext (name @ ''.new_max'') u2 = (new_max_name, u3)"
    and "unique_name ext (name @ ''.old_max'') u3 = (old_max_name, u4)"
  shows "TrimNoOps_mutate ext (For name mn extent ft da body0) u =
     Some (simplify_stmt ext
        (narrowed old_max_name new_min_name new_max_name
           (Add mn extent)
           (case i_min i of Some m \<Rightarrow> clamp m mn (var32 old_max_name) | None \<Rightarrow> mn)
           (case i_max i of
              Some m \<Rightarrow> clamp (Add m (make_const (type_of m) 1))
                          (var32 new_min_name) (var32 old_max_name)
            | None \<Rightarrow> Add mn extent)
           name ft da
           (simplify_stmt ext (SimplifyUsingBounds_mutate_stmt ext [(name, i)] body))), u4)"
  using assms
  by (cases "i_max i"; cases "i_min i") (simp_all add: Let_def narrowed_def var32_def)


lemma narrowed_bounds:
  fixes a b :: int
  assumes s: "s = narrowed old_max_name new_min_name new_max_name
           (Add mn extent) new_min new_max name ft da body"
    and new_min: "new_min = mn \<or> (\<exists>m. new_min = clamp m mn (var32 old_max_name))"
    and new_max: "new_max = Add mn extent
        \<or> (\<exists>m. new_max = clamp m (var32 new_min_name) (var32 old_max_name))"
    and fresh: "new_min_name \<noteq> old_max_name" "new_max_name \<noteq> new_min_name"
      "\<not> expr_uses_var mn old_max_name" "\<not> expr_uses_var extent old_max_name"
      "\<not> expr_uses_var mn new_min_name" "\<not> expr_uses_var extent new_min_name"
    and a: "a = eval calls env mem mn" and b: "b = eval calls env mem extent"
    and arith: "0 \<le> b" "b < 2 ^ 31" "wrap (type_of mn) (a + b) = a + b"
  shows "a \<le> lets_env calls env mem s new_min_name \<and>
         lets_env calls env mem s new_min_name \<le> lets_env calls env mem s new_max_name \<and>
         lets_env calls env mem s new_max_name \<le> a + b \<and>
         loop_range calls env mem s =
           Some (lets_env calls env mem s new_min_name,
                 lets_env calls env mem s new_max_name - lets_env calls env mem s new_min_name)"
proof -
  define env1 where "env1 = env(old_max_name := a + b)"
  define v2 where "v2 = eval calls env1 mem new_min"
  define env2 where "env2 = env1(new_min_name := v2)"
  define v3 where "v3 = eval calls env2 mem new_max"
  define env3 where "env3 = env2(new_max_name := v3)"
  have e1: "eval calls env mem (Add mn extent) = a + b"
    using a b arith(3) by simp
  have mn1: "eval calls env1 mem mn = a" "eval calls env1 mem extent = b"
    using fresh a b by (simp_all add: env1_def eval_not_used)
  have mn2: "eval calls env2 mem mn = a" "eval calls env2 mem extent = b"
    using fresh mn1 by (simp_all add: env2_def eval_not_used)
  have v2: "a \<le> v2 \<and> v2 \<le> a + b"
    using new_min
  proof
    assume "new_min = mn"
    with mn1 arith show ?thesis by (simp add: v2_def)
  next
    assume "\<exists>m. new_min = clamp m mn (var32 old_max_name)"
    then obtain m where "new_min = clamp m mn (var32 old_max_name)" ..
    with mn1 arith show ?thesis
      by (simp add: v2_def clamp_def var32_def env1_def)
  qed
  have om2: "env2 old_max_name = a + b" "env2 new_min_name = v2"
    using fresh by (simp_all add: env2_def env1_def)
  have v3: "v2 \<le> v3 \<and> v3 \<le> a + b"
    using new_max
  proof
    assume "new_max = Add mn extent"
    with mn2 arith v2 show ?thesis by (simp add: v3_def)
  next
    assume "\<exists>m. new_max = clamp m (var32 new_min_name) (var32 old_max_name)"
    then obtain m where "new_max = clamp m (var32 new_min_name) (var32 old_max_name)" ..
    with om2 v2 show ?thesis
      by (simp add: v3_def clamp_def var32_def)
  qed
  have w0: "wrap (type_of mn) (eval calls env mem mn + eval calls env mem extent)
      = eval calls env mem mn + eval calls env mem extent"
    using arith(3) a b by simp
  have le: "lets_env calls env mem s = env3"
    by (simp add: s narrowed_def env3_def v3_def env2_def v2_def env1_def a b w0)
  have e3: "env3 new_min_name = v2" "env3 new_max_name = v3"
    using fresh om2 by (simp_all add: env3_def)
  have "- (2 ^ 31) \<le> v3 - v2" "v3 - v2 < 2 ^ 31"
    using v2 v3 arith by simp_all
  then have w: "wrap (Int_t 32) (v3 - v2) = v3 - v2" by (rule wrap_Int32)
  have "loop_range calls env mem s
      = Some (eval calls env3 mem (var32 new_min_name),
              eval calls env3 mem (Sub (var32 new_max_name) (var32 new_min_name)))"
    by (simp add: s narrowed_def env3_def v3_def env2_def v2_def env1_def a b w0)
  then have lr: "loop_range calls env mem s = Some (v2, v3 - v2)"
    using e3 w by (simp add: var32_def)
  from v2 v3 le e3 lr show ?thesis by simp
qed


text \<open>
  Claim C10, as the code has it. In the narrowing outcome the trimmer hands the statement
  simplifier three lets around the loop. Provided the original extent is a non-negative
  32-bit value, \<open>min + extent\<close> does not overflow the type of \<open>min\<close>, and the
  fresh names are distinct and do not occur in \<open>min\<close> and \<open>extent\<close>, the values
  the lets bind satisfy
  original-min \<open>\<le>\<close> new-min \<open>\<le>\<close> new-max \<open>\<le>\<close> original-min + original-extent
  in every environment, whatever the solved interval is, and the loop runs from new-min
  for new-max - new-min iterations: a sub-range of the original range.
\<close>

theorem narrowed_range_within_original:
  assumes "TrimNoOps_mutate ext body0 u = Some (body, u1)"
    and "IsNoOp_stmt ext body const_true = Some c"
    and "t = simplify ext (simplify ext (common_subexpression_elimination ext c))"
    and "\<not> is_one t" and "\<not> is_zero t"
    and "i = solve_for_outer_interval ext (Not' t) name"
    and "\<not> interval_is_everything i"
    and "unique_name ext (name @ ''.new_min'') u1 = (new_min_name, u2)"
    and "unique_name ext (name @ ''.new_max'') u2 = (new_max_name, u3)"
    and "unique_name ext (name @ ''.old_max'') u3 = (old_max_name, u4)"
    and "s = narrowed old_max_name new_min_name new_max_name
           (Add mn extent)
           (case i_min i of Some m \<Rightarrow> clamp m mn (var32 old_max_name) | None \<Rightarrow> mn)
           (case i_max i of
              Some m \<Rightarrow> clamp (Add m (make_const (type_of m) 1))
                          (var32 new_min_name) (var32 old_max_name)
            | None \<Rightarrow> Add mn extent)
           name ft da
           (simplify_stmt ext (SimplifyUsingBounds_mutate_stmt ext [(name, i)] body))"
    and "new_min_name \<noteq> old_max_name" and "new_max_name \<noteq> new_min_name"
    and "\<not> expr_uses_var mn old_max_name" and "\<not> expr_uses_var extent old_max_name"
    and "\<not> expr_uses_var mn new_min_name" and "\<not> expr_uses_var extent new_min_name"
    and "0 \<le> eval calls env mem extent" and "eval calls env mem extent < 2 ^ 31"
    and "wrap (type_of mn) (eval calls env mem mn + eval calls env mem extent)
           = eval calls env mem mn + eval calls env mem extent"
  shows "TrimNoOps_mutate ext (For name mn extent ft da body0) u = Some (simplify_stmt ext s, u4) \<and>
         eval calls env mem mn \<le> lets_env calls env mem s new_min_name \<and>
         lets_env calls env mem s new_min_name \<le> lets_env calls env mem s new_max_name \<and>
         lets_env calls env mem s new_max_name
           \<le> eval calls env mem mn + eval calls env mem extent \<and>
         loop_range calls env mem s =
           Some (lets_env calls env mem s new_min_name,
                 lets_env calls env mem s new_max_name - lets_env calls env mem s new_min_name)"
proof -
  have run: "TrimNoOps_mutate ext (For name mn extent ft da body0) u
      = Some (simplify_stmt ext s, u4)"
    unfolding assms(11) by (rule narrowing_run [OF assms(1-10)])
  have mn: "(case i_min i of Some m \<Rightarrow> clamp m mn (var32 old_max_name) | None \<Rightarrow> mn) = mn
      \<or> (\<exists>m. (case i_min i of Some m \<Rightarrow> clamp m mn (var32 old_max_name) | None \<Rightarrow> mn)
             = clamp m mn (var32 old_max_name))"
    by (cases "i_min i") auto
  have mx: "(case i_max i of
              Some m \<Rightarrow> clamp (Add m (make_const (type_of m) 1))
                          (var32 new_min_name) (var32 old_max_name)
            | None \<Rightarrow> Add mn extent) = Add mn extent
      \<or> (\<exists>m. (case i_max i of
              Some m \<Rightarrow> clamp (Add m (make_const (type_of m) 1))
                          (var32 new_min_name) (var32 old_max_name)
            | None \<Rightarrow> Add mn extent) = clamp m (var32 new_min_name) (var32 old_max_name))"
    by (cases "i_max i") auto
  from narrowed_bounds [OF assms(11) mn mx assms(12-17) refl refl assms(18-20)] run
  show ?thesis by blast
qed

lemma guarded_store_trim:
  "TrimNoOps_mutate ref_ext guarded_store 0 = Some (guarded_store, 0)"
  by (simp add: guarded_store_def)

lemma guarded_store_facts:
  "Or (Not' (GE (var32 ''i'') (var32 ''n'')))
      (EQ (Load (Int_t 32) ''a'' (var32 ''i'')) (i32 1)) =
     simplify ref_ext (simplify ref_ext (common_subexpression_elimination ref_ext
       (Or (Not' (GE (var32 ''i'') (var32 ''n'')))
           (EQ (Load (Int_t 32) ''a'' (var32 ''i'')) (i32 1)))))"
  "\<not> is_one (Or (Not' (GE (var32 ''i'') (var32 ''n'')))
      (EQ (Load (Int_t 32) ''a'' (var32 ''i'')) (i32 1)))"
  "\<not> is_zero (Or (Not' (GE (var32 ''i'') (var32 ''n'')))
      (EQ (Load (Int_t 32) ''a'' (var32 ''i'')) (i32 1)))"
  "\<lparr>i_min = Some (var32 ''n''), i_max = None, i_same = False\<rparr> =
     solve_for_outer_interval ref_ext
       (Not' (Or (Not' (GE (var32 ''i'') (var32 ''n'')))
                 (EQ (Load (Int_t 32) ''a'' (var32 ''i'')) (i32 1)))) ''i''"
  "\<not> interval_is_everything \<lparr>i_min = Some (var32 ''n''), i_max = None, i_same = False\<rparr>"
  "unique_name ref_ext (''i'' @ ''.new_min'') 0 = (''i.new_min$0'', 1)"
  "unique_name ref_ext (''i'' @ ''.new_max'') 1 = (''i.new_max$1'', 2)"
  "unique_name ref_ext (''i'' @ ''.old_max'') 2 = (''i.old_max$2'', 3)"
  "narrowed_guarded_store =
     narrowed ''i.old_max$2'' ''i.new_min$0'' ''i.new_max$1''
       (Add (i32 0) (i32 100))
       (case i_min \<lparr>i_min = Some (var32 ''n''), i_max = None, i_same = False\<rparr> of
          Some m \<Rightarrow> clamp m (i32 0) (var32 ''i.old_max$2'') | None \<Rightarrow> i32 0)
       (case i_max \<lparr>i_min = Some (var32 ''n''), i_max = None, i_same = False\<rparr> of
          Some m \<Rightarrow> clamp (Add m (make_const (type_of m) 1))
                      (var32 ''i.new_min$0'') (var32 ''i.old_max$2'')
        | None \<Rightarrow> Add (i32 0) (i32 100))
       ''i'' Serial Host
       (simplify_stmt ref_ext (SimplifyUsingBounds_mutate_stmt ref_ext
          [(''i'', \<lparr>i_min = Some (var32 ''n''), i_max = None, i_same = False\<rparr>)] guarded_store))"
  "''i.new_min$0'' \<noteq> ''i.old_max$2''" "''i.new_max$1'' \<noteq> ''i.new_min$0''"
  "\<not> expr_uses_var (i32 0) ''i.old_max$2''" "\<not> expr_uses_var (i32 100) ''i.old_max$2''"
  "\<not> expr_uses_var (i32 0) ''i.new_min$0''" "\<not> expr_uses_var (i32 100) ''i.new_min$0''"
  by code_simp+

lemma guarded_store_arith:
  "0 \<le> eval (\<lambda>n vs. 0) ((\<lambda>x. 0)(''n'' := 50)) (\<lambda>b k. 0) (i32 100)"
  "eval (\<lambda>n vs. 0) ((\<lambda>x. 0)(''n'' := 50)) (\<lambda>b k. 0) (i32 100) < 2 ^ 31"
  "wrap (type_of (i32 0))
     (eval (\<lambda>n vs. 0) ((\<lambda>x. 0)(''n'' := 50)) (\<lambda>b k. 0) (i32 0)
      + eval (\<lambda>n vs. 0) ((\<lambda>x. 0)(''n'' := 50)) (\<lambda>b k. 0) (i32 100))
   = eval (\<lambda>n vs. 0) ((\<lambda>x. 0)(''n'' := 50)) (\<lambda>b k. 0) (i32 0)
      + eval (\<lambda>n vs. 0) ((\<lambda>x. 0)(''n'' := 50)) (\<lambda>b k. 0) (i32 100)"
  by (simp_all add: i32_def wrap_Int32)

text \<open>
  The loop \<open>for i in [0, 100): if (i >= n) a[i] = 1\<close> with \<open>n = 50\<close>: the new
  range is \<open>[50, 100)\<close>.
\<close>

theorem narrowed_range_within_original_witness:
  "TrimNoOps_mutate ref_ext (For ''i'' (i32 0) (i32 100) Serial Host guarded_store) 0 =
     Some (narrowed_guarded_store, 3) \<and>
   lets_env (\<lambda>n vs. 0) ((\<lambda>x. 0)(''n'' := 50)) (\<lambda>b k. 0) narrowed_guarded_store
     ''i.new_min$0'' = 50 \<and>
   lets_env (\<lambda>n vs. 0) ((\<lambda>x. 0)(''n'' := 50)) (\<lambda>b k. 0) narrowed_guarded_store
     ''i.new_max$1'' = 100 \<and>
   eval (\<lambda>n vs. 0) ((\<lambda>x. 0)(''n'' := 50)) (\<lambda>b k. 0) (i32 0)
     \<le> lets_env (\<lambda>n vs. 0) ((\<lambda>x. 0)(''n'' := 50)) (\<lambda>b k. 0) narrowed_guarded_store
          ''i.new_min$0'' \<and>
   lets_env (\<lambda>n vs. 0) ((\<lambda>x. 0)(''n'' := 50)) (\<lambda>b k. 0) narrowed_guarded_store
       ''i.new_min$0''
     \<le> lets_env (\<lambda>n vs. 0) ((\<lambda>x. 0)(''n'' := 50)) (\<lambda>b k. 0) narrowed_guarded_store
          ''i.new_max$1'' \<and>
   lets_env (\<lambda>n vs. 0) ((\<lambda>x. 0)(''n'' := 50)) (\<lambda>b k. 0) narrowed_guarded_store
       ''i.new_max$1''
     \<le> eval (\<lambda>n vs. 0) ((\<lambda>x. 0)(''n'' := 50)) (\<lambda>b k. 0) (i32 0)
        + eval (\<lambda>n vs. 0) ((\<lambda>x. 0)(''n'' := 50)) (\<lambda>b k. 0) (i32 100)"
proof -
  have v: "lets_env (\<lambda>n vs. 0) ((\<lambda>x. 0)(''n'' := 50)) (\<lambda>b k. 0) narrowed_guarded_store
     ''i.new_min$0'' = 50"
   "lets_env (\<lambda>n vs. 0) ((\<lambda>x. 0)(''n'' := 50)) (\<lambda>b k. 0) narrowed_guarded_store
     ''i.new_max$1'' = 100"
    by code_simp+
  from narrowed_range_within_original [OF guarded_store_trim guarded_store_condition
      guarded_store_facts guarded_store_arith] v
  show ?thesis by (simp add: ref_ext_def)
qed

text \<open>
  Claim C10 as stated fails. For a loop of negative extent (\<open>min = 0\<close>,
  \<open>extent = -5\<close>) and a solved interval without upper bound, the new minimum is 0 and
  the new maximum is -5: the new maximum lies below the new minimum and the new extent is
  negative. And where \<open>min + extent\<close> overflows 32 bits (\<open>min = 2147483647\<close>,
  \<open>extent = 1\<close>), the new maximum wraps to -2147483648, below the new minimum.
\<close>

theorem narrowed_range_counterexample:
  "TrimNoOps_mutate ref_ext (For ''i'' (i32 0) (i32 (- 5)) Serial Host guarded_ge2) 0 =
     Some (narrowed_negative_extent, 3) \<and>
   lets_env (\<lambda>n vs. 0) (\<lambda>x. 0) (\<lambda>b k. 0) narrowed_negative_extent ''i.new_min$0'' = 0 \<and>
   lets_env (\<lambda>n vs. 0) (\<lambda>x. 0) (\<lambda>b k. 0) narrowed_negative_extent ''i.new_max$1'' = - 5 \<and>
   loop_range (\<lambda>n vs. 0) (\<lambda>x. 0) (\<lambda>b k. 0) narrowed_negative_extent = Some (0, - 5) \<and>
   TrimNoOps_mutate ref_ext (For ''i'' (i32 2147483647) (i32 1) Serial Host guarded_ge2) 0 =
     Some (narrowed_overflow, 3) \<and>
   lets_env (\<lambda>n vs. 0) (\<lambda>x. 0) (\<lambda>b k. 0) narrowed_overflow ''i.new_min$0'' = 2147483647 \<and>
   lets_env (\<lambda>n vs. 0) (\<lambda>x. 0) (\<lambda>b k. 0) narrowed_overflow ''i.new_max$1'' = - 2147483648"
proof -
  have "TrimNoOps_mutate ref_ext (For ''i'' (i32 0) (i32 (- 5)) Serial Host guarded_ge2) 0 =
     Some (narrowed_negative_extent, 3)"
    by code_simp
  moreover have
    "lets_env (\<lambda>n vs. 0) (\<lambda>x. 0) (\<lambda>b k. 0) narrowed_negative_extent ''i.new_min$0'' = 0"
    "lets_env (\<lambda>n vs. 0) (\<lambda>x. 0) (\<lambda>b k. 0) narrowed_negative_extent ''i.new_max$1'' = - 5"
    "loop_range (\<lambda>n vs. 0) (\<lambda>x. 0) (\<lambda>b k. 0) narrowed_negative_extent = Some (0, - 5)"
    by code_simp+
  moreover have "TrimNoOps_mutate ref_ext
      (For ''i'' (i32 2147483647) (i32 1) Serial Host guarded_ge2) 0 =
     Some (narrowed_overflow, 3)"
    by code_simp
  moreover have
    "lets_env (\<lambda>n vs. 0) (\<lambda>x. 0) (\<lambda>b k. 0) narrowed_overflow ''i.new_min$0'' = 2147483647"
    "lets_env (\<lambda>n vs. 0) (\<lambda>x. 0) (\<lambda>b k. 0) narrowed_overflow ''i.new_max$1'' = - 2147483648"
    by code_simp+
  ultimately show ?thesis by blast
qed

subsection \<open>The pass against the reference interpreter\<close>

text \<open>
  A loop whose body only calls an external function has the no-op condition true, since
  the inference looks for three intrinsics only: the loop is removed, and the calls with
  it.
\<close>

lemma extern_call_loop_removed:
  assumes "is_one (simplify ext (simplify ext (common_subexpression_elimination ext const_true)))"
  shows "trim_no_ops ext
           (For ''i'' (i32 0) (i32 10) Serial Host
              (Evaluate (Call (Int_t 32) ''halide_print'' [var32 ''i''] Extern))) u =
         Some (Evaluate (i32 0), u)"
  using assms
  by (simp add: trim_no_ops_def i32_def var32_def rewrite_buffer_def image_store_def
      copy_memory_def)

text \<open>
  Claim C1 fails on the code. In \<open>for i in [0, 10): if (i <= a[0]) a[0] = a[0] + 1\<close>
  the guard reads the cell the body writes. The trimmer solves the guard for \<open>i\<close>,
  gets the upper bound \<open>a[0]\<close>, and binds the new maximum to
  \<open>clamp(a[0] + 1, new_min, old_max)\<close> once, before the loop. From a memory of zeros
  the original loop runs its store ten times and leaves \<open>a[0] = 10\<close>; the narrowed
  loop runs once and leaves \<open>a[0] = 1\<close>.
\<close>

theorem counting_loop_diverges:
  "trim_no_ops ref_ext (For ''i'' (i32 0) (i32 10) Serial Host counting_store) 0 =
     Some (narrowed_counting_store, 3) \<and>
   map_option (\<lambda>m. m ''a'' 0)
     (exec (\<lambda>n vs. 0) (For ''i'' (i32 0) (i32 10) Serial Host counting_store)
        (\<lambda>x. 0) (\<lambda>b k. 0)) = Some 10 \<and>
   map_option (\<lambda>m. m ''a'' 0)
     (exec (\<lambda>n vs. 0) narrowed_counting_store (\<lambda>x. 0) (\<lambda>b k. 0)) = Some 1"
proof -
  have "trim_no_ops ref_ext (For ''i'' (i32 0) (i32 10) Serial Host counting_store) 0 =
     Some (narrowed_counting_store, 3)"
    by code_simp
  moreover have "map_option (\<lambda>m. m ''a'' 0)
     (exec (\<lambda>n vs. 0) (For ''i'' (i32 0) (i32 10) Serial Host counting_store)
        (\<lambda>x. 0) (\<lambda>b k. 0)) = Some 10"
    by code_simp
  moreover have "map_option (\<lambda>m. m ''a'' 0)
     (exec (\<lambda>n vs. 0) narrowed_counting_store (\<lambda>x. 0) (\<lambda>b k. 0)) = Some 1"
    by code_simp
  ultimately show ?thesis by blast
qed

end
